theory Spec2Isabelle
  imports Complex_Main
begin

section \<open>Numbers, vectors and events\<close>

text \<open>
  The two scripts (\<^verbatim>\<open>script.js\<close>, the landing screen, and \<^verbatim>\<open>planetScript.js\<close>, the
  solar screen) compute with JavaScript numbers. They are modelled as \<^typ>\<open>real\<close>:
  \<^verbatim>\<open>Math.cos\<close>, \<^verbatim>\<open>Math.sin\<close>, \<^verbatim>\<open>Math.acos\<close>, \<^verbatim>\<open>Math.PI\<close> are \<^const>\<open>cos\<close>,
  \<^const>\<open>sin\<close>, \<^const>\<open>arccos\<close>, \<^const>\<open>pi\<close>, and \<^verbatim>\<open>Math.max\<close>/\<^verbatim>\<open>Math.min\<close> are
  \<^const>\<open>max\<close>/\<^const>\<open>min\<close>. The rounding of an arithmetic result to a double is
  outside this model. The rounding of a number to single precision when it is stored in
  a \<^verbatim>\<open>Float32Array\<close> is part of it.
\<close>

record Vector3 =
  vec_x :: real
  vec_y :: real
  vec_z :: real

text \<open>\<^verbatim>\<open>v.set(a, b, c)\<close> of the rendering library overwrites the three coordinates.\<close>

definition vec_set :: "real \<Rightarrow> real \<Rightarrow> real \<Rightarrow> Vector3" where
  "vec_set a b c = \<lparr>vec_x = a, vec_y = b, vec_z = c\<rparr>"

text \<open>
  Rounding to the nearest integer, a tie going to the even one.
\<close>

definition round_ties_even :: "real \<Rightarrow> int" where
  "round_ties_even y =
     (let f = \<lfloor>y\<rfloor>; d = y - of_int f
      in if d < 1 / 2 then f else if 1 / 2 < d then f + 1 else if even f then f else f + 1)"

text \<open>
  The single-precision number nearest to \<open>x\<close>, a tie going to the one with the even
  significand (\<^verbatim>\<open>Math.fround\<close>): what a \<^verbatim>\<open>Float32Array\<close> keeps of a number written to it.
  With \<open>e\<close> the integer such that \<open>2 ^ e \<le> \<bar>x\<bar> < 2 ^ (e + 1)\<close>, the single-precision
  numbers around \<open>x\<close> are the multiples of \<open>2 ^ (e - 23)\<close>, and below \<open>2 ^ (- 126)\<close> they
  are the multiples of \<open>2 ^ (- 149)\<close>. A number of magnitude \<open>2 ^ 128 - 2 ^ 103\<close> or more
  is stored as an infinity instead; the star loops store numbers of magnitude at most
  their radius \<open>R\<close>.
\<close>

definition fround :: "real \<Rightarrow> real" where
  "fround x =
     (if x = 0 then 0
      else (let e = max \<lfloor>log 2 \<bar>x\<bar>\<rfloor> (- 126);
                ulp = 2 powr (of_int e - 23)
            in of_int (round_ties_even (x / ulp)) * ulp))"

record mouseEvent =
  clientX :: real
  clientY :: real

record wheelEvent =
  deltaY :: real

section \<open>The solar screen (\<^verbatim>\<open>planetScript.js\<close>)\<close>

subsection \<open>Data\<close>

text \<open>
  An entry of the table \<^verbatim>\<open>planetsData\<close>. A character outside ASCII in a text of the
  table is written as the bytes of its UTF-8 encoding.
\<close>

record planetData =
  data_name :: string
  data_orbitalRadius :: real
  data_size :: real
  data_speed :: real
  data_color :: nat
  data_content :: string

text \<open>The \<^verbatim>\<open>userData\<close> object stored on every planet mesh.\<close>

record userData =
  name :: string
  content :: string
  orbitalRadius :: real
  speed :: real
  angle :: real

text \<open>
  A planet mesh: the sphere's radius and colour, its \<^verbatim>\<open>userData\<close>, its \<^verbatim>\<open>position\<close>
  and the component \<^verbatim>\<open>rotation.y\<close>. A fresh mesh of the rendering library sits at the
  origin with no rotation.
\<close>

record planetMesh =
  geometry_radius :: real
  material_color :: nat
  userData :: userData
  position :: Vector3
  rotation_y :: real

text \<open>
  What \<^verbatim>\<open>scene.add\<close> receives. The planet meshes are shared between the scene and
  the array \<^verbatim>\<open>planets\<close>, and \<^verbatim>\<open>animate\<close> mutates them through that array, so the
  scene holds a reference (the index in \<^verbatim>\<open>planets\<close>).
\<close>

datatype object3d =
    AmbientLight nat
  | PointLight nat real Vector3
  | Points "real list" nat real
  | SunMesh real nat
  | PlanetRef nat
  | RingMesh real real real

text \<open>
  The variables closed over by the handlers of one run of \<^verbatim>\<open>initSolarSystem\<close>:
  \<^verbatim>\<open>camera.position\<close>, \<^verbatim>\<open>scene\<close>, \<^verbatim>\<open>planets\<close>, \<^verbatim>\<open>mouseX\<close>, \<^verbatim>\<open>mouseY\<close>, and whether
  \<^verbatim>\<open>animate\<close> has been started (it then re-arms itself with
  \<^verbatim>\<open>requestAnimationFrame\<close> on every frame).
\<close>

record solar_state =
  solar_camera :: Vector3
  solar_scene :: "object3d list"
  planets :: "planetMesh list"
  solar_mouseX :: real
  solar_mouseY :: real
  solar_animating :: bool

definition planetsData :: "planetData list" where
  "planetsData =
    [\<lparr>data_name = ''Earth'', data_orbitalRadius = 150, data_size = 15, data_speed = 0.01,
      data_color = 0x4cafef,
      data_content = ''This could be your ABOUT section. Tell visitors who you are or describe your craft here.''\<rparr>,
     \<lparr>data_name = ''Mars'', data_orbitalRadius = 220, data_size = 12, data_speed = 0.008,
      data_color = 0xeb5b35,
      data_content = ''Share some of your stories here. Perhaps tales of your adventures or short stories you''
        @ [CHR 0xE2, CHR 0x80, CHR 0x99] @ ''ve written.''\<rparr>,
     \<lparr>data_name = ''Venus'', data_orbitalRadius = 270, data_size = 10, data_speed = 0.006,
      data_color = 0xf4b400,
      data_content = ''Display your poems or creative writing pieces on this planet.''\<rparr>,
     \<lparr>data_name = ''Jupiter'', data_orbitalRadius = 330, data_size = 25, data_speed = 0.004,
      data_color = 0xd59f54,
      data_content = ''Use this space for a portfolio of photographs or graphic design works. You can embed images in the panel.''\<rparr>,
     \<lparr>data_name = ''Saturn'', data_orbitalRadius = 400, data_size = 20, data_speed = 0.003,
      data_color = 0x98d263,
      data_content = ''A miscellaneous section'' @ [CHR 0xE2, CHR 0x80, CHR 0x94]
        @ ''perhaps news, blog posts or anything else you want to share.''\<rparr>]"

subsection \<open>Zoom: \<^verbatim>\<open>onWheel\<close>\<close>

definition solar_minZoom :: real where "solar_minZoom = 300"
definition solar_maxZoom :: real where "solar_maxZoom = 1500"

text \<open>
  \<^verbatim>\<open>camera.position.z += event.deltaY * 0.5;\<close>
  \<^verbatim>\<open>camera.position.z = Math.max(minZoom, Math.min(maxZoom, camera.position.z));\<close>
\<close>

definition solar_onWheel :: "wheelEvent \<Rightarrow> solar_state \<Rightarrow> solar_state" where
  "solar_onWheel event s =
     (let c1 = (solar_camera s)\<lparr>vec_z := vec_z (solar_camera s) + deltaY event * 0.5\<rparr>;
          c2 = c1\<lparr>vec_z := max solar_minZoom (min solar_maxZoom (vec_z c1))\<rparr>
      in s\<lparr>solar_camera := c2\<rparr>)"

subsection \<open>Parallax input: \<^verbatim>\<open>onMouseMove\<close>\<close>

text \<open>
  \<^verbatim>\<open>mouseX = (event.clientX / window.innerWidth) - 0.5\<close>, and likewise \<^verbatim>\<open>mouseY\<close>.
  The window's inner size is an argument; it is positive in a browser (a division by
  zero is \<open>0\<close> here and is not a number there, and no statement below rests on it).
\<close>

definition solar_onMouseMove :: "real \<Rightarrow> real \<Rightarrow> mouseEvent \<Rightarrow> solar_state \<Rightarrow> solar_state" where
  "solar_onMouseMove innerWidth innerHeight event s =
     s\<lparr>solar_mouseX := (clientX event / innerWidth) - 0.5,
       solar_mouseY := (clientY event / innerHeight) - 0.5\<rparr>"

subsection \<open>The animation tick: \<^verbatim>\<open>animate\<close>\<close>

text \<open>The body of \<^verbatim>\<open>planets.forEach(planet => ...)\<close>.\<close>

definition animate_planet :: "planetMesh \<Rightarrow> planetMesh" where
  "animate_planet planet =
     (let ud = (userData planet)\<lparr>angle := angle (userData planet) + speed (userData planet)\<rparr>;
          a = angle ud;
          r = orbitalRadius ud
      in planet\<lparr>userData := ud,
                position := vec_set (cos a * r) 0 (sin a * r),
                rotation_y := rotation_y planet + 0.01\<rparr>)"

text \<open>
  One call of \<^verbatim>\<open>animate\<close>: it re-arms itself, moves every planet, eases the camera's
  x and y towards the pointer. \<^verbatim>\<open>camera.lookAt\<close> and \<^verbatim>\<open>renderer.render\<close> change
  nothing that is modelled here.
\<close>

definition solar_animate :: "solar_state \<Rightarrow> solar_state" where
  "solar_animate s =
     (let ps = map animate_planet (planets s);
          c = solar_camera s;
          c1 = c\<lparr>vec_x := vec_x c + (solar_mouseX s * 200 - vec_x c) * 0.02\<rparr>;
          c2 = c1\<lparr>vec_y := vec_y c1 + (- solar_mouseY s * 100 - vec_y c1) * 0.02\<rparr>
      in s\<lparr>planets := ps, solar_camera := c2, solar_animating := True\<rparr>)"

subsection \<open>The star field\<close>

text \<open>
  \<^verbatim>\<open>Math.random()\<close> is a source of numbers in \<open>[0, 1)\<close>: the sequence \<open>rnd\<close> of the
  values it returns, and the number \<open>k\<close> of values drawn so far.

  The loop \<^verbatim>\<open>for (let i = 0; i < starCount; i++)\<close> of \<^verbatim>\<open>initSolarSystem\<close>, with the
  literal \<^verbatim>\<open>4000\<close> as the argument \<open>R\<close>. It draws the radius, then the polar angle, then
  the azimuth, and writes three entries of \<^verbatim>\<open>starPositions\<close>, a \<^verbatim>\<open>Float32Array\<close>,
  which keeps each number rounded to single precision; it returns the array and the
  number of values drawn. A write outside a typed array does nothing, as
  \<^const>\<open>list_update\<close> out of range.
\<close>

function solar_star_loop ::
  "(nat \<Rightarrow> real) \<Rightarrow> nat \<Rightarrow> real \<Rightarrow> nat \<Rightarrow> nat \<Rightarrow> real list \<Rightarrow> real list \<times> nat" where
  "solar_star_loop rnd starCount R i k starPositions =
     (if i < starCount then
        (let r = R * rnd k;
             theta = arccos (2 * rnd (k + 1) - 1);
             phi = rnd (k + 2) * 2 * pi;
             sp1 = starPositions[i * 3 := fround (r * sin theta * cos phi)];
             sp2 = sp1[i * 3 + 1 := fround (r * sin theta * sin phi)];
             sp3 = sp2[i * 3 + 2 := fround (r * cos theta)]
         in solar_star_loop rnd starCount R (Suc i) (k + 3) sp3)
      else (starPositions, k))"
  by pat_completeness auto
termination
  by (relation "measure (\<lambda>(rnd, starCount, R, i, k, sp). starCount - i)") auto

text \<open>\<^verbatim>\<open>new Float32Array(starCount * 3)\<close> is filled with zeros.\<close>

definition Float32Array :: "nat \<Rightarrow> real list" where
  "Float32Array n = replicate n 0"

definition solar_starCount :: nat where "solar_starCount = 2000"
definition solar_starRadius :: real where "solar_starRadius = 4000"

definition solar_stars :: "(nat \<Rightarrow> real) \<Rightarrow> nat \<Rightarrow> real list \<times> nat" where
  "solar_stars rnd k =
     solar_star_loop rnd solar_starCount solar_starRadius 0 k (Float32Array (solar_starCount * 3))"

text \<open>
  The attribute \<^verbatim>\<open>new THREE.BufferAttribute(starPositions, 3)\<close> reads the array three
  entries at a time: the number of points, the \<open>j\<close>-th point, and a point's distance
  from the origin.
\<close>

definition point_count :: "real list \<Rightarrow> nat" where
  "point_count starPositions = length starPositions div 3"

definition point_at :: "real list \<Rightarrow> nat \<Rightarrow> Vector3" where
  "point_at starPositions j =
     vec_set (starPositions ! (j * 3)) (starPositions ! (j * 3 + 1)) (starPositions ! (j * 3 + 2))"

definition vec_length :: "Vector3 \<Rightarrow> real" where
  "vec_length v = sqrt (vec_x v * vec_x v + vec_y v * vec_y v + vec_z v * vec_z v)"

subsection \<open>The page\<close>

text \<open>
  An element of the document, as far as the scripts use it: its \<^verbatim>\<open>textContent\<close> and
  its \<^verbatim>\<open>classList\<close>.
\<close>

record element =
  textContent :: string
  classList :: "string list"

definition classList_add :: "string \<Rightarrow> string list \<Rightarrow> string list" where
  "classList_add c cs = (if c \<in> set cs then cs else cs @ [c])"

definition classList_remove :: "string \<Rightarrow> string list \<Rightarrow> string list" where
  "classList_remove c cs = removeAll c cs"

text \<open>
  The functions that the scripts register as event listeners. A listener of the solar
  screen is a closure of one run of \<^verbatim>\<open>initSolarSystem\<close>; the number says which.
\<close>

datatype listener =
    Landing_onMouseMove
  | Landing_onWheel
  | Landing_onResize
  | Landing_iconClick
  | Solar_onCanvasClick nat
  | Solar_closeClick nat
  | Solar_onWheel nat
  | Solar_onResize nat
  | Solar_onMouseMove nat

text \<open>
  \<^verbatim>\<open>addEventListener\<close> appends a listener unless the same one is already registered
  for the type; \<^verbatim>\<open>removeEventListener\<close> removes it.
\<close>

definition addEventListener ::
  "string \<Rightarrow> listener \<Rightarrow> (string \<times> listener) list \<Rightarrow> (string \<times> listener) list" where
  "addEventListener ty l ls = (if (ty, l) \<in> set ls then ls else ls @ [(ty, l)])"

definition removeEventListener ::
  "string \<Rightarrow> listener \<Rightarrow> (string \<times> listener) list \<Rightarrow> (string \<times> listener) list" where
  "removeEventListener ty l ls = removeAll (ty, l) ls"

text \<open>
  The canvas \<^verbatim>\<open>#solar-scene\<close>: the entry \<^verbatim>\<open>dataset.initialised\<close> (absent, or a string),
  its bounding rectangle, and its listeners.
\<close>

record canvas =
  dataset_initialised :: "string option"
  rect_left :: real
  rect_top :: real
  rect_width :: real
  rect_height :: real
  canvas_listeners :: "(string \<times> listener) list"

text \<open>
  A value of \<^verbatim>\<open>dataset\<close> is truthy when it is a string that is not empty;
  \<^verbatim>\<open>undefined\<close> is falsy.
\<close>

definition truthy :: "string option \<Rightarrow> bool" where
  "truthy v = (case v of None \<Rightarrow> False | Some str \<Rightarrow> str \<noteq> [])"

text \<open>
  The variables of the landing screen's script: \<^verbatim>\<open>camera.position\<close>, the stars'
  positions and rotation, \<^verbatim>\<open>targetX\<close>, \<^verbatim>\<open>targetY\<close>, \<^verbatim>\<open>mouseX\<close>, \<^verbatim>\<open>mouseY\<close>.
\<close>

record landing_state =
  landing_camera :: Vector3
  stars :: "real list"
  stars_rotation_x :: real
  stars_rotation_y :: real
  targetX :: real
  targetY :: real
  landing_mouseX :: real
  landing_mouseY :: real

text \<open>
  The state of the page. An element that \<^verbatim>\<open>document.getElementById\<close> does not find is
  \<open>None\<close>. \<open>intro_tweens\<close> counts the running tweens of \<^verbatim>\<open>#intro-overlay\<close> whose
  \<^verbatim>\<open>onComplete\<close> is still to be called, \<open>close_timeouts\<close> the pending callbacks of
  \<^verbatim>\<open>setTimeout\<close>. \<open>solars\<close> holds the closure of every run of \<^verbatim>\<open>initSolarSystem\<close>
  that got past its guard.
\<close>

record page =
  window_innerWidth :: real
  window_innerHeight :: real
  solar_scene_el :: "canvas option"
  info_panel :: "element option"
  close_info :: "element option"
  planet_title :: "element option"
  planet_content :: "element option"
  icon_container :: "element option"
  solar_container :: "element option"
  window_listeners :: "(string \<times> listener) list"
  close_info_listeners :: "(string \<times> listener) list"
  icon_container_listeners :: "(string \<times> listener) list"
  initSolarSystem_defined :: bool
  random :: "nat \<Rightarrow> real"
  random_drawn :: nat
  landing :: "landing_state option"
  solars :: "solar_state list"
  intro_tweens :: nat
  close_timeouts :: nat

text \<open>A function of the scripts either returns or throws a \<^verbatim>\<open>TypeError\<close>.\<close>

datatype outcome = Returned | TypeError

subsection \<open>Activation: \<^verbatim>\<open>initSolarSystem\<close>\<close>

text \<open>
  The body of \<^verbatim>\<open>planetsData.forEach(data => ...)\<close>, over the scene, the array
  \<^verbatim>\<open>planets\<close> and the random source: a sphere with its \<^verbatim>\<open>userData\<close> (the angle is
  \<^verbatim>\<open>Math.random() * Math.PI * 2\<close>) is added to the scene and pushed on \<^verbatim>\<open>planets\<close>,
  then a ring is added to the scene.
\<close>

fun create_planets ::
  "(nat \<Rightarrow> real) \<Rightarrow> planetData list \<Rightarrow> object3d list \<times> planetMesh list \<times> nat
     \<Rightarrow> object3d list \<times> planetMesh list \<times> nat" where
  "create_planets rnd [] st = st"
| "create_planets rnd (data # rest) (scene, ps, k) =
     (let planetMesh =
            \<lparr>geometry_radius = data_size data,
             material_color = data_color data,
             userData = \<lparr>name = data_name data,
                         content = data_content data,
                         orbitalRadius = data_orbitalRadius data,
                         speed = data_speed data,
                         angle = rnd k * pi * 2\<rparr>,
             position = vec_set 0 0 0,
             rotation_y = 0\<rparr>;
          scene1 = scene @ [PlanetRef (length ps)];
          ps1 = ps @ [planetMesh];
          ring = RingMesh (data_orbitalRadius data - 0.2) (data_orbitalRadius data + 0.2) (pi / 2)
      in create_planets rnd rest (scene1 @ [ring], ps1, Suc k))"

text \<open>
  The part of \<^verbatim>\<open>initSolarSystem\<close> that builds what the handlers close over: the
  camera at \<open>(0, 200, 800)\<close> and the scene with its two lights, the stars, the sun, and
  the planets with their rings. \<^verbatim>\<open>mouseX\<close> and \<^verbatim>\<open>mouseY\<close> start at \<open>0\<close>, and
  \<^verbatim>\<open>animate\<close> has not been called yet. It returns the closure and the number of random
  values drawn.
\<close>

definition solar_setup :: "(nat \<Rightarrow> real) \<Rightarrow> nat \<Rightarrow> solar_state \<times> nat" where
  "solar_setup rnd k =
     (let camera = vec_set 0 200 800;
          scene1 = [AmbientLight 0x555555, PointLight 0xffffff 2 (vec_set 0 0 0)];
          (starPositions, k1) = solar_stars rnd k;
          scene2 = scene1 @ [Points starPositions 0xffffff 1.5];
          scene3 = scene2 @ [SunMesh 40 0xffaa00];
          (scene4, ps, k2) = create_planets rnd planetsData (scene3, [], k1)
      in (\<lparr>solar_camera = camera, solar_scene = scene4, planets = ps,
            solar_mouseX = 0, solar_mouseY = 0, solar_animating = False\<rparr>, k2))"

text \<open>
  \<^verbatim>\<open>initSolarSystem\<close>. The guard returns when the canvas is missing or its flag is set.
  Past the guard the flag is set, the camera and the scene are built, the click listener
  is registered on the canvas; \<^verbatim>\<open>closeBtn.addEventListener\<close> throws when the button is
  missing; then the window's listeners are registered and \<^verbatim>\<open>animate()\<close> is called.
\<close>

definition initSolarSystem :: "page \<Rightarrow> outcome \<times> page" where
  "initSolarSystem p =
     (case solar_scene_el p of
        None \<Rightarrow> (Returned, p)
      | Some canvas \<Rightarrow>
          if truthy (dataset_initialised canvas) then (Returned, p)
          else
            (let me = length (solars p);
                 canvas1 = canvas\<lparr>dataset_initialised := Some ''true''\<rparr>;
                 (s, k2) = solar_setup (random p) (random_drawn p);
                 canvas2 = canvas1\<lparr>canvas_listeners :=
                             addEventListener ''click'' (Solar_onCanvasClick me) (canvas_listeners canvas1)\<rparr>;
                 p1 = p\<lparr>solar_scene_el := Some canvas2, random_drawn := k2, solars := solars p @ [s]\<rparr>
             in case close_info p1 of
                  None \<Rightarrow> (TypeError, p1)
                | Some closeBtn \<Rightarrow>
                    (let p2 = p1\<lparr>close_info_listeners :=
                                  addEventListener ''click'' (Solar_closeClick me) (close_info_listeners p1)\<rparr>;
                         p3 = p2\<lparr>window_listeners :=
                                  addEventListener ''wheel'' (Solar_onWheel me) (window_listeners p2)\<rparr>;
                         p4 = p3\<lparr>window_listeners :=
                                  addEventListener ''resize'' (Solar_onResize me) (window_listeners p3)\<rparr>;
                         p5 = p4\<lparr>window_listeners :=
                                  addEventListener ''mousemove'' (Solar_onMouseMove me) (window_listeners p4)\<rparr>
                     in (Returned, p5\<lparr>solars := (solars p5)[me := solar_animate s]\<rparr>))))"

subsection \<open>Picking: \<^verbatim>\<open>onCanvasClick\<close>\<close>

text \<open>
  An entry of the array that \<^verbatim>\<open>raycaster.intersectObjects\<close> returns: the distance of
  the hit along the ray and the mesh that was hit. The ray caster belongs to the
  rendering library; the handler takes it as the argument \<open>intersectObjects\<close>, a
  function of the pointer in normalised device coordinates (set by
  \<^verbatim>\<open>raycaster.setFromCamera(mouse, camera)\<close>), the camera and the meshes to test.
\<close>

record intersection =
  distance :: real
  object :: planetMesh

type_synonym raycaster = "real \<times> real \<Rightarrow> Vector3 \<Rightarrow> planetMesh list \<Rightarrow> intersection list"

text \<open>
  \<^verbatim>\<open>onCanvasClick\<close>, for the canvas \<open>domElement\<close> of the renderer and the closure \<open>s\<close>.
  Writing \<^verbatim>\<open>textContent\<close> or reading \<^verbatim>\<open>classList\<close> of a missing element throws; what
  was written before stays written.
\<close>

definition onCanvasClick ::
  "raycaster \<Rightarrow> mouseEvent \<Rightarrow> canvas \<Rightarrow> solar_state \<Rightarrow> page \<Rightarrow> outcome \<times> page" where
  "onCanvasClick intersectObjects event domElement s p =
     (let mouse_x = ((clientX event - rect_left domElement) / rect_width domElement) * 2 - 1;
          mouse_y = - ((clientY event - rect_top domElement) / rect_height domElement) * 2 + 1;
          intersects = intersectObjects (mouse_x, mouse_y) (solar_camera s) (planets s)
      in case intersects of
           [] \<Rightarrow> (Returned, p)
         | first # _ \<Rightarrow>
             (let selected = object first
              in case planet_title p of
                   None \<Rightarrow> (TypeError, p)
                 | Some titleEl \<Rightarrow>
                     (let p1 = p\<lparr>planet_title := Some (titleEl\<lparr>textContent := name (userData selected)\<rparr>)\<rparr>
                      in case planet_content p1 of
                           None \<Rightarrow> (TypeError, p1)
                         | Some contentEl \<Rightarrow>
                             (let p2 = p1\<lparr>planet_content :=
                                           Some (contentEl\<lparr>textContent := content (userData selected)\<rparr>)\<rparr>
                              in case info_panel p2 of
                                   None \<Rightarrow> (TypeError, p2)
                                 | Some infoPanel \<Rightarrow>
                                     (let c1 = classList_remove ''hidden'' (classList infoPanel);
                                          c2 = classList_add ''show'' c1
                                      in (Returned, p2\<lparr>info_panel := Some (infoPanel\<lparr>classList := c2\<rparr>)\<rparr>))))))"

text \<open>
  The listener of the close button removes the class \<^verbatim>\<open>show\<close> and sets a timeout; the
  timeout's callback adds the class \<^verbatim>\<open>hidden\<close>.
\<close>

definition closeClick :: "page \<Rightarrow> outcome \<times> page" where
  "closeClick p =
     (case info_panel p of
        None \<Rightarrow> (TypeError, p)
      | Some infoPanel \<Rightarrow>
          (Returned, p\<lparr>info_panel := Some (infoPanel\<lparr>classList := classList_remove ''show'' (classList infoPanel)\<rparr>),
                       close_timeouts := Suc (close_timeouts p)\<rparr>))"

definition closeTimeout :: "page \<Rightarrow> outcome \<times> page" where
  "closeTimeout p =
     (case info_panel p of
        None \<Rightarrow> (TypeError, p)
      | Some infoPanel \<Rightarrow>
          (Returned, p\<lparr>info_panel := Some (infoPanel\<lparr>classList := classList_add ''hidden'' (classList infoPanel)\<rparr>)\<rparr>))"

section \<open>The landing screen (\<^verbatim>\<open>script.js\<close>)\<close>

subsection \<open>The star field\<close>

text \<open>
  The loop of the landing screen, with the literal \<^verbatim>\<open>2000\<close> as \<open>R\<close>: it draws the
  radius, then the azimuth, then the cosine of the polar angle, and stores the three
  coordinates in the \<^verbatim>\<open>Float32Array\<close>.
\<close>

function landing_star_loop ::
  "(nat \<Rightarrow> real) \<Rightarrow> nat \<Rightarrow> real \<Rightarrow> nat \<Rightarrow> nat \<Rightarrow> real list \<Rightarrow> real list \<times> nat" where
  "landing_star_loop rnd starCount R i k starPositions =
     (if i < starCount then
        (let r = R * rnd k;
             phi = rnd (k + 1) * 2 * pi;
             costheta = rnd (k + 2) * 2 - 1;
             theta = arccos costheta;
             x = r * sin theta * cos phi;
             y = r * sin theta * sin phi;
             z = r * cos theta;
             sp1 = starPositions[i * 3 := fround x];
             sp2 = sp1[i * 3 + 1 := fround y];
             sp3 = sp2[i * 3 + 2 := fround z]
         in landing_star_loop rnd starCount R (Suc i) (k + 3) sp3)
      else (starPositions, k))"
  by pat_completeness auto
termination
  by (relation "measure (\<lambda>(rnd, starCount, R, i, k, sp). starCount - i)") auto

definition landing_starCount :: nat where "landing_starCount = 3000"
definition landing_starRadius :: real where "landing_starRadius = 2000"

definition landing_stars :: "(nat \<Rightarrow> real) \<Rightarrow> nat \<Rightarrow> real list \<times> nat" where
  "landing_stars rnd k =
     landing_star_loop rnd landing_starCount landing_starRadius 0 k (Float32Array (landing_starCount * 3))"

subsection \<open>The handlers\<close>

definition landing_minZoom :: real where "landing_minZoom = 500"
definition landing_maxZoom :: real where "landing_maxZoom = 2000"

definition landing_onMouseMove :: "real \<Rightarrow> real \<Rightarrow> mouseEvent \<Rightarrow> landing_state \<Rightarrow> landing_state" where
  "landing_onMouseMove innerWidth innerHeight event l =
     l\<lparr>landing_mouseX := (clientX event / innerWidth) - 0.5,
       landing_mouseY := (clientY event / innerHeight) - 0.5\<rparr>"

definition landing_onWheel :: "wheelEvent \<Rightarrow> landing_state \<Rightarrow> landing_state" where
  "landing_onWheel event l =
     (let c1 = (landing_camera l)\<lparr>vec_z := vec_z (landing_camera l) + deltaY event * 0.5\<rparr>;
          c2 = c1\<lparr>vec_z := max landing_minZoom (min landing_maxZoom (vec_z c1))\<rparr>
      in l\<lparr>landing_camera := c2\<rparr>)"

text \<open>
  \<^verbatim>\<open>animate\<close> of the landing screen: the stars turn, the targets follow the pointer,
  the camera's x and y ease towards the targets.
\<close>

definition landing_animate :: "landing_state \<Rightarrow> landing_state" where
  "landing_animate l =
     (let l1 = l\<lparr>stars_rotation_y := stars_rotation_y l + 0.0005\<rparr>;
          l2 = l1\<lparr>stars_rotation_x := stars_rotation_x l1 + 0.0002\<rparr>;
          l3 = l2\<lparr>targetX := landing_mouseX l2 * 50\<rparr>;
          l4 = l3\<lparr>targetY := landing_mouseY l3 * 50\<rparr>;
          c = landing_camera l4;
          c1 = c\<lparr>vec_x := vec_x c + (targetX l4 - vec_x c) * 0.05\<rparr>;
          c2 = c1\<lparr>vec_y := vec_y c1 + (- targetY l4 - vec_y c1) * 0.05\<rparr>
      in l4\<lparr>landing_camera := c2\<rparr>)"

text \<open>
  The listener of \<^verbatim>\<open>DOMContentLoaded\<close>: a camera at \<open>z = 1000\<close>, the stars, the three
  listeners of the window, the first call of \<^verbatim>\<open>animate\<close>, and the click listener of
  the icon (\<^verbatim>\<open>iconContainer.addEventListener\<close> throws when the icon is missing).
\<close>

definition DOMContentLoaded :: "page \<Rightarrow> outcome \<times> page" where
  "DOMContentLoaded p =
     (let camera = (vec_set 0 0 0)\<lparr>vec_z := 1000\<rparr>;
          (starPositions, k1) = landing_stars (random p) (random_drawn p);
          l = \<lparr>landing_camera = camera, stars = starPositions,
               stars_rotation_x = 0, stars_rotation_y = 0,
               targetX = 0, targetY = 0, landing_mouseX = 0, landing_mouseY = 0\<rparr>;
          p1 = p\<lparr>random_drawn := k1, landing := Some l\<rparr>;
          p2 = p1\<lparr>window_listeners :=
                   addEventListener ''mousemove'' Landing_onMouseMove (window_listeners p1)\<rparr>;
          p3 = p2\<lparr>window_listeners :=
                   addEventListener ''wheel'' Landing_onWheel (window_listeners p2)\<rparr>;
          p4 = p3\<lparr>window_listeners :=
                   addEventListener ''resize'' Landing_onResize (window_listeners p3)\<rparr>;
          p5 = p4\<lparr>landing := Some (landing_animate l)\<rparr>
      in case icon_container p5 of
           None \<Rightarrow> (TypeError, p5)
         | Some iconContainer \<Rightarrow>
             (Returned, p5\<lparr>icon_container_listeners :=
                             addEventListener ''click'' Landing_iconClick (icon_container_listeners p5)\<rparr>))"

text \<open>
  The click listener of the icon: it removes the two listeners of the window and starts
  the tweens (the one of \<^verbatim>\<open>#icon-container\<close> has no callback and only changes what is
  drawn). \<^verbatim>\<open>onComplete\<close> of the tween of \<^verbatim>\<open>#intro-overlay\<close> shows the container of the
  solar screen and calls \<^verbatim>\<open>window.initSolarSystem\<close> if it is a function.
\<close>

definition iconClick :: "page \<Rightarrow> page" where
  "iconClick p =
     (let p1 = p\<lparr>window_listeners :=
                  removeEventListener ''mousemove'' Landing_onMouseMove (window_listeners p)\<rparr>;
          p2 = p1\<lparr>window_listeners :=
                   removeEventListener ''wheel'' Landing_onWheel (window_listeners p1)\<rparr>
      in p2\<lparr>intro_tweens := Suc (intro_tweens p2)\<rparr>)"

definition onComplete :: "page \<Rightarrow> outcome \<times> page" where
  "onComplete p =
     (case solar_container p of
        None \<Rightarrow> (TypeError, p)
      | Some solarContainer \<Rightarrow>
          (let p1 = p\<lparr>solar_container :=
                       Some (solarContainer\<lparr>classList := classList_remove ''hidden'' (classList solarContainer)\<rparr>)\<rparr>
           in if initSolarSystem_defined p1 then initSolarSystem p1 else (Returned, p1)))"

section \<open>Events\<close>

text \<open>
  What the browser delivers to the page: pointer moves, wheel events and resizes of the
  window, clicks on the solar canvas, on the close button and on the icon, the end of a
  tween of the overlay, the expiry of a timeout, and an animation frame.
\<close>

datatype event =
    MouseMove mouseEvent
  | Wheel wheelEvent
  | Resize real real
  | CanvasClick mouseEvent
  | CloseClick
  | IconClick
  | IntroComplete
  | CloseTimeout
  | AnimationFrame

definition update_solar :: "nat \<Rightarrow> (solar_state \<Rightarrow> solar_state) \<Rightarrow> page \<Rightarrow> page" where
  "update_solar i f p =
     (if i < length (solars p) then p\<lparr>solars := (solars p)[i := f (solars p ! i)]\<rparr> else p)"

text \<open>
  Calling one listener with an event (a listener is only ever called with an event of
  the type it was registered for). An exception thrown by a listener ends that listener
  only. The two \<^verbatim>\<open>onResize\<close> change the camera's aspect and the renderer's size,
  which are not part of the state.
\<close>

definition call_listener :: "raycaster \<Rightarrow> event \<Rightarrow> listener \<Rightarrow> page \<Rightarrow> page" where
  "call_listener rc ev l p =
     (case l of
        Landing_onMouseMove \<Rightarrow>
          (case ev of
             MouseMove e \<Rightarrow>
               p\<lparr>landing := map_option (landing_onMouseMove (window_innerWidth p) (window_innerHeight p) e) (landing p)\<rparr>
           | _ \<Rightarrow> p)
      | Landing_onWheel \<Rightarrow>
          (case ev of
             Wheel e \<Rightarrow> p\<lparr>landing := map_option (landing_onWheel e) (landing p)\<rparr>
           | _ \<Rightarrow> p)
      | Landing_onResize \<Rightarrow> p
      | Landing_iconClick \<Rightarrow>
          (case ev of IconClick \<Rightarrow> iconClick p | _ \<Rightarrow> p)
      | Solar_onCanvasClick i \<Rightarrow>
          (case ev of
             CanvasClick e \<Rightarrow>
               (case solar_scene_el p of
                  None \<Rightarrow> p
                | Some domElement \<Rightarrow>
                    if i < length (solars p)
                    then snd (onCanvasClick rc e domElement (solars p ! i) p) else p)
           | _ \<Rightarrow> p)
      | Solar_closeClick i \<Rightarrow>
          (case ev of CloseClick \<Rightarrow> snd (closeClick p) | _ \<Rightarrow> p)
      | Solar_onWheel i \<Rightarrow>
          (case ev of Wheel e \<Rightarrow> update_solar i (solar_onWheel e) p | _ \<Rightarrow> p)
      | Solar_onResize i \<Rightarrow> p
      | Solar_onMouseMove i \<Rightarrow>
          (case ev of
             MouseMove e \<Rightarrow>
               update_solar i (solar_onMouseMove (window_innerWidth p) (window_innerHeight p) e) p
           | _ \<Rightarrow> p))"

text \<open>An event of type \<open>ty\<close> calls, in order, the listeners registered for \<open>ty\<close>.\<close>

definition dispatch :: "raycaster \<Rightarrow> event \<Rightarrow> string \<Rightarrow> (string \<times> listener) list \<Rightarrow> page \<Rightarrow> page" where
  "dispatch rc ev ty ls p = fold (call_listener rc ev) (map snd (filter (\<lambda>tl. fst tl = ty) ls)) p"

fun step :: "raycaster \<Rightarrow> page \<Rightarrow> event \<Rightarrow> page" where
  "step rc p (MouseMove e) = dispatch rc (MouseMove e) ''mousemove'' (window_listeners p) p"
| "step rc p (Wheel e) = dispatch rc (Wheel e) ''wheel'' (window_listeners p) p"
| "step rc p (Resize w h) =
     dispatch rc (Resize w h) ''resize'' (window_listeners p) (p\<lparr>window_innerWidth := w, window_innerHeight := h\<rparr>)"
| "step rc p (CanvasClick e) =
     (case solar_scene_el p of
        None \<Rightarrow> p
      | Some domElement \<Rightarrow> dispatch rc (CanvasClick e) ''click'' (canvas_listeners domElement) p)"
| "step rc p CloseClick =
     (case close_info p of
        None \<Rightarrow> p
      | Some closeBtn \<Rightarrow> dispatch rc CloseClick ''click'' (close_info_listeners p) p)"
| "step rc p IconClick =
     (case icon_container p of
        None \<Rightarrow> p
      | Some iconContainer \<Rightarrow> dispatch rc IconClick ''click'' (icon_container_listeners p) p)"
| "step rc p IntroComplete =
     (if intro_tweens p = 0 then p else snd (onComplete (p\<lparr>intro_tweens := intro_tweens p - 1\<rparr>)))"
| "step rc p CloseTimeout =
     (if close_timeouts p = 0 then p else snd (closeTimeout (p\<lparr>close_timeouts := close_timeouts p - 1\<rparr>)))"
| "step rc p AnimationFrame =
     p\<lparr>landing := map_option landing_animate (landing p),
       solars := map (\<lambda>s. if solar_animating s then solar_animate s else s) (solars p)\<rparr>"

definition run :: "raycaster \<Rightarrow> page \<Rightarrow> event list \<Rightarrow> page" where
  "run rc p es = foldl (step rc) p es"

section \<open>Notions used in the statements\<close>

text \<open>
  A vector, and the state of either screen, with the camera's \<open>z\<close> blanked out: two
  states that agree on these differ in the zoom distance only.
\<close>

definition without_z :: "Vector3 \<Rightarrow> Vector3" where
  "without_z v = v\<lparr>vec_z := 0\<rparr>"

definition solar_without_zoom :: "solar_state \<Rightarrow> solar_state" where
  "solar_without_zoom s = s\<lparr>solar_camera := without_z (solar_camera s)\<rparr>"

definition landing_without_zoom :: "landing_state \<Rightarrow> landing_state" where
  "landing_without_zoom l = l\<lparr>landing_camera := without_z (landing_camera l)\<rparr>"

text \<open>
  The point that the star loop of the solar screen, and that of the landing screen,
  computes from the three values drawn from position \<open>k\<close> on, before it is stored; and
  a vector with each coordinate rounded to single precision.
\<close>

definition solar_star_point :: "(nat \<Rightarrow> real) \<Rightarrow> real \<Rightarrow> nat \<Rightarrow> Vector3" where
  "solar_star_point rnd R k =
     (let r = R * rnd k;
          theta = arccos (2 * rnd (k + 1) - 1);
          phi = rnd (k + 2) * 2 * pi
      in vec_set (r * sin theta * cos phi) (r * sin theta * sin phi) (r * cos theta))"

definition landing_star_point :: "(nat \<Rightarrow> real) \<Rightarrow> real \<Rightarrow> nat \<Rightarrow> Vector3" where
  "landing_star_point rnd R k =
     (let r = R * rnd k;
          phi = rnd (k + 1) * 2 * pi;
          theta = arccos (rnd (k + 2) * 2 - 1)
      in vec_set (r * sin theta * cos phi) (r * sin theta * sin phi) (r * cos theta))"

definition vec_fround :: "Vector3 \<Rightarrow> Vector3" where
  "vec_fround v = vec_set (fround (vec_x v)) (fround (vec_y v)) (fround (vec_z v))"

text \<open>
  Whether one of the two listeners that the landing screen removes on the icon's click,
  \<^verbatim>\<open>onMouseMove\<close> for \<^verbatim>\<open>mousemove\<close> and \<^verbatim>\<open>onWheel\<close> for \<^verbatim>\<open>wheel\<close>, is registered on
  the window.
\<close>

definition landing_listening :: "page \<Rightarrow> bool" where
  "landing_listening p \<longleftrightarrow>
     (''mousemove'', Landing_onMouseMove) \<in> set (window_listeners p) \<or>
     (''wheel'', Landing_onWheel) \<in> set (window_listeners p)"

text \<open>
  The planets of a closure carry, in order, the name, content, orbital radius and speed
  of the entries of \<^verbatim>\<open>planetsData\<close>.
\<close>

definition configured :: "solar_state \<Rightarrow> bool" where
  "configured s \<longleftrightarrow>
     map (\<lambda>m. (name (userData m), content (userData m), orbitalRadius (userData m), speed (userData m)))
         (planets s)
     = map (\<lambda>d. (data_name d, data_content d, data_orbitalRadius d, data_speed d)) planetsData"

section \<open>Example inputs\<close>

text \<open>
  A planet with the orbit of the first entry of the table and angle \<open>0\<close>, a closure of
  the solar screen that holds it, a state of the landing screen, and a page before any
  script has run; they instantiate the theorems below.
\<close>

definition example_planet :: planetMesh where
  "example_planet =
     \<lparr>geometry_radius = 15, material_color = 0x4cafef,
      userData = \<lparr>name = ''Earth'', content = ''About'', orbitalRadius = 150, speed = 0.01, angle = 0\<rparr>,
      position = vec_set 0 0 0, rotation_y = 0\<rparr>"

definition example_solar :: solar_state where
  "example_solar =
     \<lparr>solar_camera = vec_set 0 200 800,
      solar_scene = [SunMesh 40 0xffaa00, PlanetRef 0, RingMesh 149.8 150.2 (pi / 2)],
      planets = [example_planet],
      solar_mouseX = 0, solar_mouseY = 0, solar_animating = True\<rparr>"

definition example_landing :: landing_state where
  "example_landing =
     \<lparr>landing_camera = vec_set 0 0 1000, stars = [],
      stars_rotation_x = 0, stars_rotation_y = 0,
      targetX = 0, targetY = 0, landing_mouseX = 0, landing_mouseY = 0\<rparr>"

definition example_page :: page where
  "example_page =
     \<lparr>window_innerWidth = 1280, window_innerHeight = 720,
      solar_scene_el = Some \<lparr>dataset_initialised = None, rect_left = 0, rect_top = 0,
                             rect_width = 1280, rect_height = 720, canvas_listeners = []\<rparr>,
      info_panel = Some \<lparr>textContent = [], classList = [''hidden'']\<rparr>,
      close_info = Some \<lparr>textContent = [], classList = []\<rparr>,
      planet_title = Some \<lparr>textContent = [], classList = []\<rparr>,
      planet_content = Some \<lparr>textContent = [], classList = []\<rparr>,
      icon_container = Some \<lparr>textContent = [], classList = []\<rparr>,
      solar_container = Some \<lparr>textContent = [], classList = [''hidden'']\<rparr>,
      window_listeners = [], close_info_listeners = [], icon_container_listeners = [],
      initSolarSystem_defined = True,
      random = (\<lambda>k. 1 / 2), random_drawn = 0,
      landing = None, solars = [],
      intro_tweens = 0, close_timeouts = 0\<rparr>"

text \<open>
  A ray caster for the examples: a ray through the left half of the canvas hits every
  mesh it is given, at the distance of the mesh's orbit; a ray through the right half
  hits nothing. The page once \<^verbatim>\<open>DOMContentLoaded\<close> has fired, and that page once the
  icon has been clicked and the tween of the overlay has completed.
\<close>

definition example_raycaster :: raycaster where
  "example_raycaster mouse camera meshes =
     (if fst mouse < 0
      then map (\<lambda>m. \<lparr>distance = orbitalRadius (userData m), object = m\<rparr>) meshes
      else [])"

text \<open>
  Two sequences of values of \<^verbatim>\<open>Math.random\<close>: a radius just inside the sphere, the
  polar angle \<open>\<pi> / 3\<close> and the azimuth \<open>\<pi> / 4\<close>, in the order of the solar screen's
  loop and in the order of the landing screen's loop.
\<close>

definition example_draws :: "nat \<Rightarrow> real" where
  "example_draws k =
     (if k mod 3 = 0 then 0.99999999 else if k mod 3 = 1 then 3 / 4 else 1 / 8)"

definition example_draws_landing :: "nat \<Rightarrow> real" where
  "example_draws_landing k =
     (if k mod 3 = 0 then 0.99999999 else if k mod 3 = 1 then 1 / 8 else 3 / 4)"

definition example_loaded :: page where
  "example_loaded = snd (DOMContentLoaded example_page)"

definition example_active :: page where
  "example_active = run example_raycaster example_loaded [IconClick, IntroComplete]"

section \<open>The example page\<close>

lemma example_loaded_fields:
  "solars example_loaded = []"
  "icon_container example_loaded = Some \<lparr>textContent = [], classList = []\<rparr>"
  "icon_container_listeners example_loaded = [(''click'', Landing_iconClick)]"
  "window_listeners example_loaded =
     [(''mousemove'', Landing_onMouseMove), (''wheel'', Landing_onWheel), (''resize'', Landing_onResize)]"
  "map_option landing_camera (landing example_loaded) = Some (vec_set 0 0 1000)"
  by (simp_all add: example_loaded_def DOMContentLoaded_def example_page_def Let_def split_beta
      addEventListener_def landing_animate_def vec_set_def)

lemma example_active_fields:
  "solars example_active =
     [solar_animate (fst (solar_setup (\<lambda>k. 1 / 2) (snd (landing_stars (\<lambda>k. 1 / 2) 0))))]"
  "solar_scene_el example_active =
     Some \<lparr>dataset_initialised = Some ''true'', rect_left = 0, rect_top = 0,
           rect_width = 1280, rect_height = 720,
           canvas_listeners = [(''click'', Solar_onCanvasClick 0)]\<rparr>"
  "planet_title example_active = Some \<lparr>textContent = [], classList = []\<rparr>"
  "planet_content example_active = Some \<lparr>textContent = [], classList = []\<rparr>"
  "info_panel example_active = Some \<lparr>textContent = [], classList = [''hidden'']\<rparr>"
  "window_listeners example_active =
     [(''resize'', Landing_onResize), (''wheel'', Solar_onWheel 0), (''resize'', Solar_onResize 0),
      (''mousemove'', Solar_onMouseMove 0)]"
  by (simp_all add: example_active_def run_def example_loaded_def DOMContentLoaded_def example_page_def
      Let_def split_beta dispatch_def addEventListener_def removeEventListener_def call_listener_def
      iconClick_def onComplete_def initSolarSystem_def truthy_def classList_remove_def)

section \<open>Zoom\<close>

lemma solar_onWheel_z:
  "vec_z (solar_camera (solar_onWheel event s)) =
     max solar_minZoom (min solar_maxZoom (vec_z (solar_camera s) + deltaY event * 0.5))"
  by (simp add: solar_onWheel_def Let_def)

lemma landing_onWheel_z:
  "vec_z (landing_camera (landing_onWheel event l)) =
     max landing_minZoom (min landing_maxZoom (vec_z (landing_camera l) + deltaY event * 0.5))"
  by (simp add: landing_onWheel_def Let_def)

lemma solar_zoom_fold:
  "solar_minZoom \<le> vec_z (solar_camera s) \<and> vec_z (solar_camera s) \<le> solar_maxZoom \<Longrightarrow>
   solar_minZoom \<le> vec_z (solar_camera (fold solar_onWheel events s)) \<and>
   vec_z (solar_camera (fold solar_onWheel events s)) \<le> solar_maxZoom"
proof (induction events arbitrary: s)
  case Nil
  then show ?case by simp
next
  case (Cons e es)
  have "solar_minZoom \<le> vec_z (solar_camera (solar_onWheel e s)) \<and>
        vec_z (solar_camera (solar_onWheel e s)) \<le> solar_maxZoom"
    by (simp add: solar_onWheel_z solar_minZoom_def solar_maxZoom_def)
  from Cons.IH [OF this] show ?case by simp
qed

lemma landing_zoom_fold:
  "landing_minZoom \<le> vec_z (landing_camera l) \<and> vec_z (landing_camera l) \<le> landing_maxZoom \<Longrightarrow>
   landing_minZoom \<le> vec_z (landing_camera (fold landing_onWheel events l)) \<and>
   vec_z (landing_camera (fold landing_onWheel events l)) \<le> landing_maxZoom"
proof (induction events arbitrary: l)
  case Nil
  then show ?case by simp
next
  case (Cons e es)
  have "landing_minZoom \<le> vec_z (landing_camera (landing_onWheel e l)) \<and>
        vec_z (landing_camera (landing_onWheel e l)) \<le> landing_maxZoom"
    by (simp add: landing_onWheel_z landing_minZoom_def landing_maxZoom_def)
  from Cons.IH [OF this] show ?case by simp
qed

text \<open>
  Claim C3. On each screen, whatever the \<^verbatim>\<open>deltaY\<close> of the wheel events of a finite
  sequence, the camera's \<open>z\<close> after the handler has processed them all lies in the
  screen's range (\<open>[300, 1500]\<close> on the solar screen, \<open>[500, 2000]\<close> on the landing
  screen), provided it was in the range before.
\<close>

theorem zoom_distance_clamped:
  "(300 \<le> vec_z (solar_camera s) \<and> vec_z (solar_camera s) \<le> 1500 \<longrightarrow>
      300 \<le> vec_z (solar_camera (fold solar_onWheel events s)) \<and>
      vec_z (solar_camera (fold solar_onWheel events s)) \<le> 1500) \<and>
   (500 \<le> vec_z (landing_camera l) \<and> vec_z (landing_camera l) \<le> 2000 \<longrightarrow>
      500 \<le> vec_z (landing_camera (fold landing_onWheel events' l)) \<and>
      vec_z (landing_camera (fold landing_onWheel events' l)) \<le> 2000)"
  using solar_zoom_fold [of s events] landing_zoom_fold [of l events']
  by (simp add: solar_minZoom_def solar_maxZoom_def landing_minZoom_def landing_maxZoom_def)

theorem zoom_distance_clamped_witness:
  "(300 \<le> vec_z (solar_camera example_solar) \<and> vec_z (solar_camera example_solar) \<le> 1500) \<and>
   300 \<le> vec_z (solar_camera (fold solar_onWheel [\<lparr>deltaY = 1000\<rparr>, \<lparr>deltaY = 1000\<rparr>, \<lparr>deltaY = - 5000\<rparr>] example_solar)) \<and>
   vec_z (solar_camera (fold solar_onWheel [\<lparr>deltaY = 1000\<rparr>, \<lparr>deltaY = 1000\<rparr>, \<lparr>deltaY = - 5000\<rparr>] example_solar)) \<le> 1500 \<and>
   (500 \<le> vec_z (landing_camera example_landing) \<and> vec_z (landing_camera example_landing) \<le> 2000) \<and>
   500 \<le> vec_z (landing_camera (fold landing_onWheel [\<lparr>deltaY = 3000\<rparr>, \<lparr>deltaY = - 120\<rparr>] example_landing)) \<and>
   vec_z (landing_camera (fold landing_onWheel [\<lparr>deltaY = 3000\<rparr>, \<lparr>deltaY = - 120\<rparr>] example_landing)) \<le> 2000"
proof -
  have s: "300 \<le> vec_z (solar_camera example_solar) \<and> vec_z (solar_camera example_solar) \<le> 1500"
    by (simp add: example_solar_def vec_set_def)
  have l: "500 \<le> vec_z (landing_camera example_landing) \<and> vec_z (landing_camera example_landing) \<le> 2000"
    by (simp add: example_landing_def vec_set_def)
  from s l
    zoom_distance_clamped [of example_solar "[\<lparr>deltaY = 1000\<rparr>, \<lparr>deltaY = 1000\<rparr>, \<lparr>deltaY = - 5000\<rparr>]"
      example_landing "[\<lparr>deltaY = 3000\<rparr>, \<lparr>deltaY = - 120\<rparr>]"]
  show ?thesis by blast
qed

text \<open>
  Claim C5. On the solar screen, from camera distance \<open>800\<close> a wheel event with
  \<^verbatim>\<open>deltaY = 1000\<close> (the factor \<open>0.5\<close> and the range \<open>[300, 1500]\<close> are the handler's)
  gives distance \<open>1300\<close>, and a second such event gives \<open>1500\<close>.
\<close>

theorem wheel_scenario:
  assumes "vec_z (solar_camera s) = 800"
  shows "vec_z (solar_camera (solar_onWheel \<lparr>deltaY = 1000\<rparr> s)) = 1300 \<and>
         vec_z (solar_camera (solar_onWheel \<lparr>deltaY = 1000\<rparr> (solar_onWheel \<lparr>deltaY = 1000\<rparr> s))) = 1500"
  using assms by (simp add: solar_onWheel_z solar_minZoom_def solar_maxZoom_def)

theorem wheel_scenario_witness:
  "vec_z (solar_camera example_solar) = 800 \<and>
   vec_z (solar_camera (solar_onWheel \<lparr>deltaY = 1000\<rparr> example_solar)) = 1300 \<and>
   vec_z (solar_camera (solar_onWheel \<lparr>deltaY = 1000\<rparr> (solar_onWheel \<lparr>deltaY = 1000\<rparr> example_solar))) = 1500"
proof -
  have h: "vec_z (solar_camera example_solar) = 800"
    by (simp add: example_solar_def vec_set_def)
  from h wheel_scenario [OF h] show ?thesis by simp
qed

section \<open>The star fields\<close>

declare solar_star_loop.simps [simp del]
declare landing_star_loop.simps [simp del]

subsection \<open>Rounding to single precision\<close>

lemma round_ties_even_error: "\<bar>of_int (round_ties_even y) - y\<bar> \<le> 1 / 2"
proof -
  have "of_int \<lfloor>y\<rfloor> \<le> y" and "y < of_int \<lfloor>y\<rfloor> + 1" by linarith+
  then show ?thesis
    by (auto simp add: round_ties_even_def Let_def)
qed

lemma round_ties_even_eq:
  "of_int m - 1 / 2 < y \<Longrightarrow> y < of_int m + 1 / 2 \<Longrightarrow> round_ties_even y = m"
proof -
  assume a: "of_int m - 1 / 2 < y" and b: "y < of_int m + 1 / 2"
  have "\<lfloor>y\<rfloor> = m \<or> \<lfloor>y\<rfloor> = m - 1"
    using a b by (simp add: floor_eq_iff) linarith
  then show ?thesis
  proof
    assume f: "\<lfloor>y\<rfloor> = m"
    then have "y - of_int \<lfloor>y\<rfloor> < 1 / 2" using b by simp
    then show ?thesis by (simp add: round_ties_even_def Let_def f)
  next
    assume f: "\<lfloor>y\<rfloor> = m - 1"
    then have "1 / 2 < y - of_int \<lfloor>y\<rfloor>" using a by simp
    then show ?thesis by (simp add: round_ties_even_def Let_def f)
  qed
qed

lemma fround_eq:
  assumes "- 126 \<le> e" and "2 powr of_int e \<le> \<bar>x\<bar>" and "\<bar>x\<bar> < 2 powr (of_int e + 1)"
    and "of_int m - 1 / 2 < x / 2 powr (of_int e - 23)"
    and "x / 2 powr (of_int e - 23) < of_int m + 1 / 2"
  shows "fround x = of_int m * 2 powr (of_int e - 23)"
proof -
  from assms(2) have pos: "0 < \<bar>x\<bar>"
    using powr_gt_zero [of 2 "of_int e"] by linarith
  then have nz: "x \<noteq> 0" by auto
  from pos assms(2,3) have "\<lfloor>log 2 \<bar>x\<bar>\<rfloor> = e"
    by (simp add: floor_log_eq_powr_iff)
  with assms(1) have "max \<lfloor>log 2 \<bar>x\<bar>\<rfloor> (- 126) = e" by simp
  with nz round_ties_even_eq [OF assms(4,5)] show ?thesis
    by (simp add: fround_def Let_def)
qed

lemma fround_error: "\<bar>fround x - x\<bar> \<le> \<bar>x\<bar> / 2 ^ 24 + 1 / 2 ^ 150"
proof (cases "x = 0")
  case True
  then show ?thesis by (simp add: fround_def)
next
  case False
  define e where "e = max \<lfloor>log 2 \<bar>x\<bar>\<rfloor> (- 126)"
  define ulp :: real where "ulp = 2 powr (of_int e - 23)"
  have ulp_pos: "0 < ulp" by (simp add: ulp_def)
  have fr: "fround x = of_int (round_ties_even (x / ulp)) * ulp"
    using False by (simp add: fround_def Let_def e_def ulp_def)
  have "\<bar>fround x - x\<bar> = \<bar>of_int (round_ties_even (x / ulp)) - x / ulp\<bar> * ulp"
  proof -
    have "fround x - x = (of_int (round_ties_even (x / ulp)) - x / ulp) * ulp"
      using ulp_pos by (simp add: fr field_simps)
    then show ?thesis using ulp_pos by (simp add: abs_mult)
  qed
  also have "\<dots> \<le> 1 / 2 * ulp"
    using round_ties_even_error [of "x / ulp"] ulp_pos by (intro mult_right_mono) simp_all
  finally have half: "\<bar>fround x - x\<bar> \<le> ulp / 2" by simp
  have "ulp / 2 \<le> \<bar>x\<bar> / 2 ^ 24 + 1 / 2 ^ 150"
  proof (cases "- 126 \<le> \<lfloor>log 2 \<bar>x\<bar>\<rfloor>")
    case True
    then have e: "e = \<lfloor>log 2 \<bar>x\<bar>\<rfloor>" by (simp add: e_def)
    have "of_int e \<le> log 2 \<bar>x\<bar>" unfolding e by simp
    then have "2 powr of_int e \<le> 2 powr log 2 \<bar>x\<bar>" by simp
    also have "\<dots> = \<bar>x\<bar>" using False by simp
    finally have le: "2 powr of_int e \<le> \<bar>x\<bar>" .
    have "ulp = 2 powr of_int e / 2 ^ 23"
      by (simp add: ulp_def powr_diff)
    then have "ulp / 2 = 2 powr of_int e / 2 ^ 24" by simp
    also have "\<dots> \<le> \<bar>x\<bar> / 2 ^ 24" using le by (simp add: divide_right_mono)
    finally show ?thesis by simp
  next
    case False
    then have e: "e = - 126" by (simp add: e_def)
    have "ulp = 1 / 2 ^ 149"
      by (simp add: ulp_def e powr_minus_divide)
    then have "ulp / 2 = 1 / 2 ^ 150" by simp
    then show ?thesis by simp
  qed
  with half show ?thesis by linarith
qed

lemma norm3_perturbed:
  fixes a b c a' b' c' d eps :: real
  assumes d: "0 \<le> d" and eps: "0 \<le> eps"
    and a: "\<bar>a'\<bar> \<le> \<bar>a\<bar> * (1 + d) + eps"
    and b: "\<bar>b'\<bar> \<le> \<bar>b\<bar> * (1 + d) + eps"
    and c: "\<bar>c'\<bar> \<le> \<bar>c\<bar> * (1 + d) + eps"
  shows "sqrt (a' * a' + b' * b' + c' * c') \<le> sqrt (a * a + b * b + c * c) * (1 + d) + 3 * eps"
proof -
  define r where "r = sqrt (a * a + b * b + c * c)"
  have sum_nonneg: "0 \<le> a * a + b * b + c * c" by simp
  have r0: "0 \<le> r" by (simp add: r_def)
  have r2: "r * r = a * a + b * b + c * c"
    unfolding r_def using sum_nonneg by simp
  have comp: "\<bar>x\<bar> \<le> r" if "x * x \<le> a * a + b * b + c * c" for x
  proof -
    have "\<bar>x\<bar> = sqrt (x * x)" by simp
    also have "\<dots> \<le> r" unfolding r_def using that by (rule real_sqrt_le_mono)
    finally show ?thesis .
  qed
  have ar: "\<bar>a\<bar> \<le> r" by (rule comp) (simp add: add_nonneg_nonneg)
  have br: "\<bar>b\<bar> \<le> r" by (rule comp) (simp add: add_nonneg_nonneg)
  have cr: "\<bar>c\<bar> \<le> r" by (rule comp) (simp add: add_nonneg_nonneg)
  define A where "A = \<bar>a\<bar> * (1 + d) + eps"
  define B where "B = \<bar>b\<bar> * (1 + d) + eps"
  define C where "C = \<bar>c\<bar> * (1 + d) + eps"
  have sq: "x' * x' \<le> X * X" if "\<bar>x'\<bar> \<le> X" for x' X :: real
  proof -
    have "x' * x' = \<bar>x'\<bar> * \<bar>x'\<bar>" by simp
    also have "\<dots> \<le> X * X" using that by (intro mult_mono) simp_all
    finally show ?thesis .
  qed
  have le1: "a' * a' + b' * b' + c' * c' \<le> A * A + B * B + C * C"
    using sq [of a' A] sq [of b' B] sq [of c' C] a b c by (simp add: A_def B_def C_def)
  define s where "s = \<bar>a\<bar> + \<bar>b\<bar> + \<bar>c\<bar>"
  have s3: "s \<le> 3 * r" using ar br cr by (simp add: s_def)
  have expand: "A * A + B * B + C * C
        = (1 + d) * (1 + d) * (r * r) + 2 * (eps * (1 + d)) * s + 3 * (eps * eps)"
  proof -
    have "\<bar>a\<bar> * \<bar>a\<bar> = a * a" "\<bar>b\<bar> * \<bar>b\<bar> = b * b" "\<bar>c\<bar> * \<bar>c\<bar> = c * c" by simp_all
    then have "A * A + B * B + C * C
        = (1 + d) * (1 + d) * (a * a + b * b + c * c) + 2 * (eps * (1 + d)) * s + 3 * (eps * eps)"
      unfolding A_def B_def C_def s_def by algebra
    then show ?thesis by (simp only: r2)
  qed
  have k0: "0 \<le> eps * (1 + d)" using d eps by simp
  have "2 * (eps * (1 + d)) * s \<le> 2 * (eps * (1 + d)) * (3 * r)"
    using k0 s3 by (intro mult_left_mono) simp_all
  moreover have "0 \<le> eps * eps" using eps by simp
  ultimately have "A * A + B * B + C * C
        \<le> (1 + d) * (1 + d) * (r * r) + 2 * (eps * (1 + d)) * (3 * r) + 9 * (eps * eps)"
    unfolding expand by linarith
  also have "\<dots> = (r * (1 + d) + 3 * eps)\<^sup>2"
    by (simp add: power2_eq_square algebra_simps)
  finally have le2: "A * A + B * B + C * C \<le> (r * (1 + d) + 3 * eps)\<^sup>2" .
  have "0 \<le> r * (1 + d) + 3 * eps" using r0 d eps by simp
  then have "sqrt (a' * a' + b' * b' + c' * c') \<le> r * (1 + d) + 3 * eps"
    using le1 le2 by (intro real_le_lsqrt) simp_all
  then show ?thesis by (simp only: r_def)
qed

lemma fround_abs: "\<bar>fround x\<bar> \<le> \<bar>x\<bar> * (1 + 1 / 2 ^ 24) + 1 / 2 ^ 150"
proof -
  have "\<bar>fround x\<bar> \<le> \<bar>x\<bar> + \<bar>fround x - x\<bar>" by simp
  also have "\<dots> \<le> \<bar>x\<bar> + (\<bar>x\<bar> / 2 ^ 24 + 1 / 2 ^ 150)"
    using fround_error [of x] by simp
  also have "\<dots> = \<bar>x\<bar> * (1 + 1 / 2 ^ 24) + 1 / 2 ^ 150"
    by (simp add: algebra_simps)
  finally show ?thesis .
qed

lemma vec_fround_length:
  "vec_length (vec_fround v) \<le> vec_length v * (1 + 1 / 2 ^ 24) + 3 * (1 / 2 ^ 150)"
  unfolding vec_length_def vec_fround_def vec_set_def
  using norm3_perturbed [of "1 / 2 ^ 24" "1 / 2 ^ 150", OF _ _ fround_abs fround_abs fround_abs]
  by simp

lemma sphere_norm:
  "sqrt ((r * sin t * cos f) * (r * sin t * cos f) + (r * sin t * sin f) * (r * sin t * sin f)
         + (r * cos t) * (r * cos t)) = \<bar>r\<bar>"
proof -
  have "(r * sin t * cos f) * (r * sin t * cos f) + (r * sin t * sin f) * (r * sin t * sin f)
         + (r * cos t) * (r * cos t)
        = r\<^sup>2 * ((sin t)\<^sup>2 * ((cos f)\<^sup>2 + (sin f)\<^sup>2) + (cos t)\<^sup>2)"
    by algebra
  also have "\<dots> = r\<^sup>2" by simp
  finally show ?thesis by simp
qed

lemma solar_star_point_length: "vec_length (solar_star_point rnd R k) = \<bar>R * rnd k\<bar>"
  by (simp add: solar_star_point_def Let_def vec_length_def vec_set_def sphere_norm)

lemma landing_star_point_length: "vec_length (landing_star_point rnd R k) = \<bar>R * rnd k\<bar>"
  by (simp add: landing_star_point_def Let_def vec_length_def vec_set_def sphere_norm)

subsection \<open>The stored points\<close>

lemma solar_star_loop_length:
  "length (fst (solar_star_loop rnd n R i k sp)) = length sp"
proof (induction rnd n R i k sp rule: solar_star_loop.induct)
  case (1 rnd n R i k sp)
  show ?case
  proof (cases "i < n")
    case True
    from 1 [OF True refl refl refl refl refl refl] True show ?thesis
      by (subst solar_star_loop.simps) (simp add: Let_def)
  next
    case False
    then show ?thesis by (subst solar_star_loop.simps) simp
  qed
qed

lemma solar_star_loop_below:
  "m < i * 3 \<Longrightarrow> fst (solar_star_loop rnd n R i k sp) ! m = sp ! m"
proof (induction rnd n R i k sp rule: solar_star_loop.induct)
  case (1 rnd n R i k sp)
  show ?case
  proof (cases "i < n")
    case True
    have "m < Suc i * 3" using "1.prems" by simp
    from "1.IH" [OF True refl refl refl refl refl refl this] True "1.prems" show ?thesis
      by (subst solar_star_loop.simps) (simp add: Let_def)
  next
    case False
    then show ?thesis by (subst solar_star_loop.simps) simp
  qed
qed

lemma solar_star_loop_point:
  "length sp = n * 3 \<Longrightarrow> i \<le> j \<Longrightarrow> j < n \<Longrightarrow>
   point_at (fst (solar_star_loop rnd n R i k sp)) j
     = vec_fround (solar_star_point rnd R (k + 3 * (j - i)))"
proof (induction rnd n R i k sp rule: solar_star_loop.induct)
  case (1 rnd n R i k sp)
  from "1.prems" have lt: "i < n" by simp
  define r where "r = R * rnd k"
  define theta where "theta = arccos (2 * rnd (k + 1) - 1)"
  define phi where "phi = rnd (k + 2) * 2 * pi"
  define sp1 where "sp1 = sp[i * 3 := fround (r * sin theta * cos phi)]"
  define sp2 where "sp2 = sp1[i * 3 + 1 := fround (r * sin theta * sin phi)]"
  define sp3 where "sp3 = sp2[i * 3 + 2 := fround (r * cos theta)]"
  have unfold: "solar_star_loop rnd n R i k sp = solar_star_loop rnd n R (Suc i) (k + 3) sp3"
    using lt by (subst solar_star_loop.simps) (simp add: Let_def r_def theta_def phi_def sp1_def sp2_def sp3_def)
  have len3: "length sp3 = n * 3" using "1.prems" by (simp add: sp1_def sp2_def sp3_def)
  show ?case
  proof (cases "j = i")
    case True
    have bound: "i * 3 + 2 < length sp" using "1.prems" lt by simp
    have "point_at (fst (solar_star_loop rnd n R (Suc i) (k + 3) sp3)) i = point_at sp3 i"
      by (simp add: point_at_def solar_star_loop_below)
    also have "\<dots> = vec_set (fround (r * sin theta * cos phi)) (fround (r * sin theta * sin phi))
                          (fround (r * cos theta))"
      using bound by (simp add: point_at_def sp1_def sp2_def sp3_def)
    also have "\<dots> = vec_fround (solar_star_point rnd R k)"
      by (simp add: vec_fround_def solar_star_point_def Let_def vec_set_def r_def theta_def phi_def)
    finally show ?thesis
      using True by (simp add: unfold)
  next
    case False
    with "1.prems" have "Suc i \<le> j" by simp
    have "point_at (fst (solar_star_loop rnd n R (Suc i) (k + 3) sp3)) j
          = vec_fround (solar_star_point rnd R (k + 3 + 3 * (j - Suc i)))"
      unfolding r_def theta_def phi_def sp1_def sp2_def sp3_def
      by (rule "1.IH" [OF lt refl refl refl refl refl refl])
         (use "1.prems" \<open>Suc i \<le> j\<close> in simp_all)
    moreover have "k + 3 + 3 * (j - Suc i) = k + 3 * (j - i)" using \<open>Suc i \<le> j\<close> by simp
    ultimately show ?thesis by (simp add: unfold)
  qed
qed

lemma landing_star_loop_length:
  "length (fst (landing_star_loop rnd n R i k sp)) = length sp"
proof (induction rnd n R i k sp rule: landing_star_loop.induct)
  case (1 rnd n R i k sp)
  show ?case
  proof (cases "i < n")
    case True
    from 1 [OF True refl refl refl refl refl refl refl refl refl refl] True show ?thesis
      by (subst landing_star_loop.simps) (simp add: Let_def)
  next
    case False
    then show ?thesis by (subst landing_star_loop.simps) simp
  qed
qed

lemma landing_star_loop_below:
  "m < i * 3 \<Longrightarrow> fst (landing_star_loop rnd n R i k sp) ! m = sp ! m"
proof (induction rnd n R i k sp rule: landing_star_loop.induct)
  case (1 rnd n R i k sp)
  show ?case
  proof (cases "i < n")
    case True
    have "m < Suc i * 3" using "1.prems" by simp
    from "1.IH" [OF True refl refl refl refl refl refl refl refl refl refl this] True "1.prems"
    show ?thesis
      by (subst landing_star_loop.simps) (simp add: Let_def)
  next
    case False
    then show ?thesis by (subst landing_star_loop.simps) simp
  qed
qed

lemma landing_star_loop_point:
  "length sp = n * 3 \<Longrightarrow> i \<le> j \<Longrightarrow> j < n \<Longrightarrow>
   point_at (fst (landing_star_loop rnd n R i k sp)) j
     = vec_fround (landing_star_point rnd R (k + 3 * (j - i)))"
proof (induction rnd n R i k sp rule: landing_star_loop.induct)
  case (1 rnd n R i k sp)
  from "1.prems" have lt: "i < n" by simp
  define r where "r = R * rnd k"
  define phi where "phi = rnd (k + 1) * 2 * pi"
  define theta where "theta = arccos (rnd (k + 2) * 2 - 1)"
  define sp1 where "sp1 = sp[i * 3 := fround (r * sin theta * cos phi)]"
  define sp2 where "sp2 = sp1[i * 3 + 1 := fround (r * sin theta * sin phi)]"
  define sp3 where "sp3 = sp2[i * 3 + 2 := fround (r * cos theta)]"
  have unfold: "landing_star_loop rnd n R i k sp = landing_star_loop rnd n R (Suc i) (k + 3) sp3"
    using lt by (subst landing_star_loop.simps) (simp add: Let_def r_def theta_def phi_def sp1_def sp2_def sp3_def)
  have len3: "length sp3 = n * 3" using "1.prems" by (simp add: sp1_def sp2_def sp3_def)
  show ?case
  proof (cases "j = i")
    case True
    have bound: "i * 3 + 2 < length sp" using "1.prems" lt by simp
    have "point_at (fst (landing_star_loop rnd n R (Suc i) (k + 3) sp3)) i = point_at sp3 i"
      by (simp add: point_at_def landing_star_loop_below)
    also have "\<dots> = vec_set (fround (r * sin theta * cos phi)) (fround (r * sin theta * sin phi))
                          (fround (r * cos theta))"
      using bound by (simp add: point_at_def sp1_def sp2_def sp3_def)
    also have "\<dots> = vec_fround (landing_star_point rnd R k)"
      by (simp add: vec_fround_def landing_star_point_def Let_def vec_set_def r_def theta_def phi_def)
    finally show ?thesis
      using True by (simp add: unfold)
  next
    case False
    with "1.prems" have "Suc i \<le> j" by simp
    have "point_at (fst (landing_star_loop rnd n R (Suc i) (k + 3) sp3)) j
          = vec_fround (landing_star_point rnd R (k + 3 + 3 * (j - Suc i)))"
      unfolding r_def theta_def phi_def sp1_def sp2_def sp3_def
      by (rule "1.IH" [OF lt refl refl refl refl refl refl refl refl refl refl])
         (use "1.prems" \<open>Suc i \<le> j\<close> in simp_all)
    moreover have "k + 3 + 3 * (j - Suc i) = k + 3 * (j - i)" using \<open>Suc i \<le> j\<close> by simp
    ultimately show ?thesis by (simp add: unfold)
  qed
qed

lemma stored_star_bound:
  assumes "0 \<le> u" and "u < 1" and "0 \<le> R" and "vec_length v = \<bar>R * u\<bar>"
  shows "0 \<le> R * u \<and> R * u \<le> R \<and>
         0 \<le> vec_length (vec_fround v) \<and>
         vec_length (vec_fround v) \<le> R * (1 + 1 / 2 ^ 23) + 1 / 2 ^ 148"
proof -
  from assms have a: "0 \<le> R * u" and b: "R * u \<le> R * 1"
    by (simp, intro mult_left_mono, simp_all)
  have "vec_length (vec_fround v) \<le> R * u * (1 + 1 / 2 ^ 24) + 3 * (1 / 2 ^ 150)"
    using vec_fround_length [of v] assms(4) a by simp
  also have "\<dots> \<le> R * (1 + 1 / 2 ^ 24) + 3 * (1 / 2 ^ 150)"
    using b by (simp add: mult_right_mono)
  also have "\<dots> \<le> R * (1 + 1 / 2 ^ 23) + 1 / 2 ^ 148"
  proof -
    have "R * (1 + 1 / 2 ^ 24) \<le> R * (1 + 1 / 2 ^ 23)"
      using assms(3) by (intro mult_left_mono) simp_all
    moreover have "3 * (1 / 2 ^ 150) \<le> (1::real) / 2 ^ 148" by simp
    ultimately show ?thesis by linarith
  qed
  finally have c: "vec_length (vec_fround v) \<le> R * (1 + 1 / 2 ^ 23) + 1 / 2 ^ 148" .
  have "0 \<le> vec_length (vec_fround v)" by (simp add: vec_length_def)
  with a b c show ?thesis by simp
qed

lemma star_loops_stored:
  assumes "\<forall>k. 0 \<le> rnd k \<and> rnd k < 1" and "0 \<le> R"
  shows "point_count (fst (solar_star_loop rnd N R 0 k (Float32Array (N * 3)))) = N \<and>
         (\<forall>j<N. point_at (fst (solar_star_loop rnd N R 0 k (Float32Array (N * 3)))) j
                   = vec_fround (solar_star_point rnd R (k + 3 * j)) \<and>
                 vec_length (solar_star_point rnd R (k + 3 * j)) = R * rnd (k + 3 * j) \<and>
                 0 \<le> R * rnd (k + 3 * j) \<and> R * rnd (k + 3 * j) \<le> R \<and>
                 0 \<le> vec_length (point_at (fst (solar_star_loop rnd N R 0 k (Float32Array (N * 3)))) j) \<and>
                 vec_length (point_at (fst (solar_star_loop rnd N R 0 k (Float32Array (N * 3)))) j)
                   \<le> R * (1 + 1 / 2 ^ 23) + 1 / 2 ^ 148) \<and>
         point_count (fst (landing_star_loop rnd N R 0 k (Float32Array (N * 3)))) = N \<and>
         (\<forall>j<N. point_at (fst (landing_star_loop rnd N R 0 k (Float32Array (N * 3)))) j
                   = vec_fround (landing_star_point rnd R (k + 3 * j)) \<and>
                 vec_length (landing_star_point rnd R (k + 3 * j)) = R * rnd (k + 3 * j) \<and>
                 0 \<le> R * rnd (k + 3 * j) \<and> R * rnd (k + 3 * j) \<le> R \<and>
                 0 \<le> vec_length (point_at (fst (landing_star_loop rnd N R 0 k (Float32Array (N * 3)))) j) \<and>
                 vec_length (point_at (fst (landing_star_loop rnd N R 0 k (Float32Array (N * 3)))) j)
                   \<le> R * (1 + 1 / 2 ^ 23) + 1 / 2 ^ 148)"
proof -
  have len: "length (Float32Array (N * 3)) = N * 3" by (simp add: Float32Array_def)
  have u: "0 \<le> rnd m" "rnd m < 1" for m using assms(1) by simp_all
  have cs: "point_count (fst (solar_star_loop rnd N R 0 k (Float32Array (N * 3)))) = N"
    by (simp add: point_count_def solar_star_loop_length len)
  have cl: "point_count (fst (landing_star_loop rnd N R 0 k (Float32Array (N * 3)))) = N"
    by (simp add: point_count_def landing_star_loop_length len)
  have ps: "point_at (fst (solar_star_loop rnd N R 0 k (Float32Array (N * 3)))) j
                   = vec_fround (solar_star_point rnd R (k + 3 * j)) \<and>
                 vec_length (solar_star_point rnd R (k + 3 * j)) = R * rnd (k + 3 * j) \<and>
                 0 \<le> R * rnd (k + 3 * j) \<and> R * rnd (k + 3 * j) \<le> R \<and>
                 0 \<le> vec_length (point_at (fst (solar_star_loop rnd N R 0 k (Float32Array (N * 3)))) j) \<and>
                 vec_length (point_at (fst (solar_star_loop rnd N R 0 k (Float32Array (N * 3)))) j)
                   \<le> R * (1 + 1 / 2 ^ 23) + 1 / 2 ^ 148"
    if "j < N" for j
  proof -
    have p: "point_at (fst (solar_star_loop rnd N R 0 k (Float32Array (N * 3)))) j
             = vec_fround (solar_star_point rnd R (k + 3 * j))"
      using solar_star_loop_point [OF len le0 that, of rnd R k] by simp
    note b = stored_star_bound [OF u [of "k + 3 * j"] assms(2) solar_star_point_length [of rnd R "k + 3 * j"]]
    from b have "vec_length (solar_star_point rnd R (k + 3 * j)) = R * rnd (k + 3 * j)"
      by (simp add: solar_star_point_length)
    with p b show ?thesis by simp
  qed
  have pl: "point_at (fst (landing_star_loop rnd N R 0 k (Float32Array (N * 3)))) j
                   = vec_fround (landing_star_point rnd R (k + 3 * j)) \<and>
                 vec_length (landing_star_point rnd R (k + 3 * j)) = R * rnd (k + 3 * j) \<and>
                 0 \<le> R * rnd (k + 3 * j) \<and> R * rnd (k + 3 * j) \<le> R \<and>
                 0 \<le> vec_length (point_at (fst (landing_star_loop rnd N R 0 k (Float32Array (N * 3)))) j) \<and>
                 vec_length (point_at (fst (landing_star_loop rnd N R 0 k (Float32Array (N * 3)))) j)
                   \<le> R * (1 + 1 / 2 ^ 23) + 1 / 2 ^ 148"
    if "j < N" for j
  proof -
    have p: "point_at (fst (landing_star_loop rnd N R 0 k (Float32Array (N * 3)))) j
             = vec_fround (landing_star_point rnd R (k + 3 * j))"
      using landing_star_loop_point [OF len le0 that, of rnd R k] by simp
    note b = stored_star_bound [OF u [of "k + 3 * j"] assms(2) landing_star_point_length [of rnd R "k + 3 * j"]]
    from b have "vec_length (landing_star_point rnd R (k + 3 * j)) = R * rnd (k + 3 * j)"
      by (simp add: landing_star_point_length)
    with p b show ?thesis by simp
  qed
  from cs cl ps pl show ?thesis by blast
qed

subsection \<open>A star outside the sphere\<close>

lemma arccos_half: "arccos (1 / 2) = pi / 3"
proof -
  have "arccos (cos (pi / 3)) = pi / 3" by (rule arccos_cos) simp_all
  then show ?thesis by (simp add: cos_60)
qed

lemma sqrt_6_bounds: "2.4494897 < sqrt 6" "sqrt 6 < 2.4494898"
proof -
  show "2.4494897 < sqrt 6" by (rule real_less_rsqrt) (simp add: power2_eq_square)
  show "sqrt 6 < 2.4494898" by (rule real_less_lsqrt) (simp_all add: power2_eq_square)
qed

lemma example_fround_xy:
  "fround (4000 * 0.99999999 * (sqrt 3 / 2) * (sqrt 2 / 2)) = 10033110 / 4096"
proof -
  define x :: real where "x = 4000 * 0.99999999 * (sqrt 3 / 2) * (sqrt 2 / 2)"
  have "sqrt 3 * sqrt 2 = sqrt 6" by (simp flip: real_sqrt_mult)
  then have x: "x = 999.99999 * sqrt 6" by (simp add: x_def)
  from sqrt_6_bounds have lo: "999.99999 * 2.4494897 < x" and hi: "x < 999.99999 * 2.4494898"
    unfolding x by simp_all
  from lo have pos: "0 < x" by simp
  have "fround x = of_int 10033110 * 2 powr (of_int 11 - 23)"
  proof (rule fround_eq)
    show "- 126 \<le> (11::int)" by simp
    show "2 powr of_int 11 \<le> \<bar>x\<bar>" using lo pos by simp
    show "\<bar>x\<bar> < 2 powr (of_int 11 + 1)" using hi pos by simp
    show "of_int 10033110 - 1 / 2 < x / 2 powr (of_int 11 - 23)" using lo by (simp add: powr_minus_divide)
    show "x / 2 powr (of_int 11 - 23) < of_int 10033110 + 1 / 2" using hi by (simp add: powr_minus_divide)
  qed
  then show ?thesis by (simp add: powr_minus_divide x_def)
qed

lemma example_fround_z: "fround (4000 * 0.99999999 * (1 / 2)) = 2000"
proof -
  define z :: real where "z = 4000 * 0.99999999 * (1 / 2)"
  have z: "z = 1999.99998" by (simp add: z_def)
  have "fround z = of_int 16384000 * 2 powr (of_int 10 - 23)"
  proof (rule fround_eq)
    show "- 126 \<le> (10::int)" by simp
    show "2 powr of_int 10 \<le> \<bar>z\<bar>" by (simp add: z)
    show "\<bar>z\<bar> < 2 powr (of_int 10 + 1)" by (simp add: z)
    show "of_int 16384000 - 1 / 2 < z / 2 powr (of_int 10 - 23)" by (simp add: powr_minus_divide z)
    show "z / 2 powr (of_int 10 - 23) < of_int 16384000 + 1 / 2" by (simp add: powr_minus_divide z)
  qed
  then show ?thesis by (simp add: powr_minus_divide z_def)
qed

lemma example_draws_at:
  "example_draws (3 * j) = 0.99999999" "example_draws (3 * j + 1) = 3 / 4"
  "example_draws (3 * j + 2) = 1 / 8"
  "example_draws_landing (3 * j) = 0.99999999" "example_draws_landing (3 * j + 1) = 1 / 8"
  "example_draws_landing (3 * j + 2) = 3 / 4"
proof -
  have m: "(3 * j) mod 3 = 0" "(3 * j + 1) mod 3 = 1" "(3 * j + 2) mod 3 = 2" by presburger+
  show "example_draws (3 * j) = 0.99999999" "example_draws (3 * j + 1) = 3 / 4"
    "example_draws (3 * j + 2) = 1 / 8"
    "example_draws_landing (3 * j) = 0.99999999" "example_draws_landing (3 * j + 1) = 1 / 8"
    "example_draws_landing (3 * j + 2) = 3 / 4"
    unfolding example_draws_def example_draws_landing_def m by simp_all
qed

lemma example_draws_range:
  "0 \<le> example_draws k \<and> example_draws k < 1"
  "0 \<le> example_draws_landing k \<and> example_draws_landing k < 1"
  by (simp_all add: example_draws_def example_draws_landing_def)

lemma example_star_stored:
  "vec_fround (solar_star_point example_draws 4000 (3 * j)) = vec_set (10033110 / 4096) (10033110 / 4096) 2000"
  "vec_fround (landing_star_point example_draws_landing 4000 (3 * j)) = vec_set (10033110 / 4096) (10033110 / 4096) 2000"
proof -
  have t: "arccos (2 * (3 / 4) - 1) = pi / 3" "arccos (3 / 4 * 2 - 1) = pi / 3"
    using arccos_half by simp_all
  have f: "(1 / 8) * 2 * pi = pi / 4" by simp
  show "vec_fround (solar_star_point example_draws 4000 (3 * j)) = vec_set (10033110 / 4096) (10033110 / 4096) 2000"
    unfolding vec_fround_def solar_star_point_def Let_def example_draws_at t f vec_set_def
    by (simp only: Vector3.simps sin_60 cos_60 sin_45 cos_45 example_fround_xy example_fround_z)
  show "vec_fround (landing_star_point example_draws_landing 4000 (3 * j)) = vec_set (10033110 / 4096) (10033110 / 4096) 2000"
    unfolding vec_fround_def landing_star_point_def Let_def example_draws_at t f vec_set_def
    by (simp only: Vector3.simps sin_60 cos_60 sin_45 cos_45 example_fround_xy example_fround_z)
qed

lemma example_star_outside:
  "4000 < vec_length (vec_set (10033110 / 4096) (10033110 / 4096) 2000)"
  unfolding vec_length_def vec_set_def
  by (rule real_less_rsqrt) (simp add: power2_eq_square)

subsection \<open>The points of the star fields\<close>

text \<open>
  Claim C4. Given a count \<open>N\<close> and a radius \<open>R\<close> with \<open>0 \<le> R \<le> 2 ^ 127\<close>, and
  \<^verbatim>\<open>Math.random\<close> returning numbers of \<open>[0, 1)\<close>, the star loop of either screen fills
  an array of exactly \<open>N\<close> points. The point that the loop computes for star \<open>j\<close> is at
  distance exactly \<open>R * u\<close> from the origin, \<open>u\<close> being the radius drawn for it, so between
  \<open>0\<close> and \<open>R\<close>: the conversion to Cartesian coordinates keeps the radius. The stored
  point is that point with each coordinate rounded to single precision; its distance
  from the origin is between \<open>0\<close> and \<open>R * (1 + 1 / 2 ^ 23) + 1 / 2 ^ 148\<close>, and it can
  exceed \<open>R\<close>. In particular the solar screen's stars are \<open>2000\<close> points within
  \<open>4000.0005\<close> of the origin, and the landing screen's stars are \<open>3000\<close> points within
  \<open>2000.00025\<close>.
\<close>

theorem starfield_points:
  assumes "\<forall>k. 0 \<le> rnd k \<and> rnd k < 1" and "0 \<le> R" and "R \<le> 2 ^ 127"
  shows "point_count (fst (solar_star_loop rnd N R 0 k (Float32Array (N * 3)))) = N \<and>
         (\<forall>j<N. point_at (fst (solar_star_loop rnd N R 0 k (Float32Array (N * 3)))) j
                   = vec_fround (solar_star_point rnd R (k + 3 * j)) \<and>
                 vec_length (solar_star_point rnd R (k + 3 * j)) = R * rnd (k + 3 * j) \<and>
                 0 \<le> R * rnd (k + 3 * j) \<and> R * rnd (k + 3 * j) \<le> R \<and>
                 0 \<le> vec_length (point_at (fst (solar_star_loop rnd N R 0 k (Float32Array (N * 3)))) j) \<and>
                 vec_length (point_at (fst (solar_star_loop rnd N R 0 k (Float32Array (N * 3)))) j)
                   \<le> R * (1 + 1 / 2 ^ 23) + 1 / 2 ^ 148) \<and>
         point_count (fst (landing_star_loop rnd N R 0 k (Float32Array (N * 3)))) = N \<and>
         (\<forall>j<N. point_at (fst (landing_star_loop rnd N R 0 k (Float32Array (N * 3)))) j
                   = vec_fround (landing_star_point rnd R (k + 3 * j)) \<and>
                 vec_length (landing_star_point rnd R (k + 3 * j)) = R * rnd (k + 3 * j) \<and>
                 0 \<le> R * rnd (k + 3 * j) \<and> R * rnd (k + 3 * j) \<le> R \<and>
                 0 \<le> vec_length (point_at (fst (landing_star_loop rnd N R 0 k (Float32Array (N * 3)))) j) \<and>
                 vec_length (point_at (fst (landing_star_loop rnd N R 0 k (Float32Array (N * 3)))) j)
                   \<le> R * (1 + 1 / 2 ^ 23) + 1 / 2 ^ 148) \<and>
         point_count (fst (solar_stars rnd k)) = 2000 \<and>
         (\<forall>j<2000. point_at (fst (solar_stars rnd k)) j
                      = vec_fround (solar_star_point rnd 4000 (k + 3 * j)) \<and>
                    vec_length (solar_star_point rnd 4000 (k + 3 * j)) = 4000 * rnd (k + 3 * j) \<and>
                    0 \<le> vec_length (point_at (fst (solar_stars rnd k)) j) \<and>
                    vec_length (point_at (fst (solar_stars rnd k)) j) \<le> 4000.0005) \<and>
         point_count (fst (landing_stars rnd k)) = 3000 \<and>
         (\<forall>j<3000. point_at (fst (landing_stars rnd k)) j
                      = vec_fround (landing_star_point rnd 2000 (k + 3 * j)) \<and>
                    vec_length (landing_star_point rnd 2000 (k + 3 * j)) = 2000 * rnd (k + 3 * j) \<and>
                    0 \<le> vec_length (point_at (fst (landing_stars rnd k)) j) \<and>
                    vec_length (point_at (fst (landing_stars rnd k)) j) \<le> 2000.00025)"
proof -
  have z4: "(0::real) \<le> 4000" and z2: "(0::real) \<le> 2000" by simp_all
  have b4: "4000 * (1 + 1 / 2 ^ 23) + 1 / 2 ^ 148 \<le> (4000.0005::real)" by simp
  have b2: "2000 * (1 + 1 / 2 ^ 23) + 1 / 2 ^ 148 \<le> (2000.00025::real)" by simp
  have solar: "point_count (fst (solar_stars rnd k)) = 2000 \<and>
         (\<forall>j<2000. point_at (fst (solar_stars rnd k)) j
                      = vec_fround (solar_star_point rnd 4000 (k + 3 * j)) \<and>
                    vec_length (solar_star_point rnd 4000 (k + 3 * j)) = 4000 * rnd (k + 3 * j) \<and>
                    0 \<le> vec_length (point_at (fst (solar_stars rnd k)) j) \<and>
                    vec_length (point_at (fst (solar_stars rnd k)) j) \<le> 4000.0005)"
  proof -
    from star_loops_stored [OF assms(1) z4, of 2000 k]
    have c: "point_count (fst (solar_stars rnd k)) = 2000"
      and p: "\<forall>j<2000. point_at (fst (solar_stars rnd k)) j
                      = vec_fround (solar_star_point rnd 4000 (k + 3 * j)) \<and>
                    vec_length (solar_star_point rnd 4000 (k + 3 * j)) = 4000 * rnd (k + 3 * j) \<and>
                    0 \<le> 4000 * rnd (k + 3 * j) \<and> 4000 * rnd (k + 3 * j) \<le> 4000 \<and>
                    0 \<le> vec_length (point_at (fst (solar_stars rnd k)) j) \<and>
                    vec_length (point_at (fst (solar_stars rnd k)) j) \<le> 4000 * (1 + 1 / 2 ^ 23) + 1 / 2 ^ 148"
      unfolding solar_stars_def solar_starCount_def solar_starRadius_def by blast+
    have "vec_length (point_at (fst (solar_stars rnd k)) j) \<le> 4000.0005" if "j < 2000" for j
      using p that b4 by (blast intro: order_trans)
    with c p show ?thesis by blast
  qed
  have landing: "point_count (fst (landing_stars rnd k)) = 3000 \<and>
         (\<forall>j<3000. point_at (fst (landing_stars rnd k)) j
                      = vec_fround (landing_star_point rnd 2000 (k + 3 * j)) \<and>
                    vec_length (landing_star_point rnd 2000 (k + 3 * j)) = 2000 * rnd (k + 3 * j) \<and>
                    0 \<le> vec_length (point_at (fst (landing_stars rnd k)) j) \<and>
                    vec_length (point_at (fst (landing_stars rnd k)) j) \<le> 2000.00025)"
  proof -
    from star_loops_stored [OF assms(1) z2, of 3000 k]
    have c: "point_count (fst (landing_stars rnd k)) = 3000"
      and p: "\<forall>j<3000. point_at (fst (landing_stars rnd k)) j
                      = vec_fround (landing_star_point rnd 2000 (k + 3 * j)) \<and>
                    vec_length (landing_star_point rnd 2000 (k + 3 * j)) = 2000 * rnd (k + 3 * j) \<and>
                    0 \<le> 2000 * rnd (k + 3 * j) \<and> 2000 * rnd (k + 3 * j) \<le> 2000 \<and>
                    0 \<le> vec_length (point_at (fst (landing_stars rnd k)) j) \<and>
                    vec_length (point_at (fst (landing_stars rnd k)) j) \<le> 2000 * (1 + 1 / 2 ^ 23) + 1 / 2 ^ 148"
      unfolding landing_stars_def landing_starCount_def landing_starRadius_def by blast+
    have "vec_length (point_at (fst (landing_stars rnd k)) j) \<le> 2000.00025" if "j < 3000" for j
      using p that b2 by (blast intro: order_trans)
    with c p show ?thesis by blast
  qed
  from star_loops_stored [OF assms(1,2), of N k] solar landing show ?thesis by blast
qed

theorem starfield_points_witness:
  "(\<forall>k. 0 \<le> example_draws k \<and> example_draws k < 1) \<and>
   (\<forall>k. 0 \<le> example_draws_landing k \<and> example_draws_landing k < 1) \<and>
   (0::real) \<le> 4000 \<and> (4000::real) \<le> 2 ^ 127 \<and>
   point_count (fst (solar_star_loop example_draws 2 4000 0 0 (Float32Array (2 * 3)))) = 2 \<and>
   point_at (fst (solar_star_loop example_draws 2 4000 0 0 (Float32Array (2 * 3)))) 1
     = vec_set (10033110 / 4096) (10033110 / 4096) 2000 \<and>
   vec_length (solar_star_point example_draws 4000 3) = 3999.99996 \<and>
   vec_length (point_at (fst (solar_star_loop example_draws 2 4000 0 0 (Float32Array (2 * 3)))) 1)
     \<le> 4000 * (1 + 1 / 2 ^ 23) + 1 / 2 ^ 148 \<and>
   4000 < vec_length (point_at (fst (solar_star_loop example_draws 2 4000 0 0 (Float32Array (2 * 3)))) 1) \<and>
   point_count (fst (landing_star_loop example_draws_landing 2 4000 0 0 (Float32Array (2 * 3)))) = 2 \<and>
   point_at (fst (landing_star_loop example_draws_landing 2 4000 0 0 (Float32Array (2 * 3)))) 1
     = vec_set (10033110 / 4096) (10033110 / 4096) 2000 \<and>
   vec_length (landing_star_point example_draws_landing 4000 3) = 3999.99996 \<and>
   vec_length (point_at (fst (landing_star_loop example_draws_landing 2 4000 0 0 (Float32Array (2 * 3)))) 1)
     \<le> 4000 * (1 + 1 / 2 ^ 23) + 1 / 2 ^ 148"
proof -
  let ?S = "fst (solar_star_loop example_draws 2 4000 0 0 (Float32Array (2 * 3)))"
  let ?L = "fst (landing_star_loop example_draws_landing 2 4000 0 0 (Float32Array (2 * 3)))"
  have h1: "\<forall>k. 0 \<le> example_draws k \<and> example_draws k < 1"
    using example_draws_range(1) by blast
  have h1': "\<forall>k. 0 \<le> example_draws_landing k \<and> example_draws_landing k < 1"
    using example_draws_range(2) by blast
  have h2: "(0::real) \<le> 4000" by simp
  have h3: "(4000::real) \<le> 2 ^ 127" by simp
  have lt: "(1::nat) < 2" by simp
  have idx: "(0::nat) + 3 * 1 = 3 * 1" by simp
  note s = starfield_points [where rnd = example_draws and R = 4000 and N = 2 and k = 0, OF h1 h2 h3]
  note l = starfield_points [where rnd = example_draws_landing and R = 4000 and N = 2 and k = 0, OF h1' h2 h3]
  from s have sc: "point_count ?S = 2" by blast
  from l have lc: "point_count ?L = 2" by blast
  from s have "\<forall>j<2. point_at ?S j = vec_fround (solar_star_point example_draws 4000 (0 + 3 * j)) \<and>
                 vec_length (solar_star_point example_draws 4000 (0 + 3 * j)) = 4000 * example_draws (0 + 3 * j) \<and>
                 0 \<le> 4000 * example_draws (0 + 3 * j) \<and> 4000 * example_draws (0 + 3 * j) \<le> 4000 \<and>
                 0 \<le> vec_length (point_at ?S j) \<and>
                 vec_length (point_at ?S j) \<le> 4000 * (1 + 1 / 2 ^ 23) + 1 / 2 ^ 148"
    by blast
  from this [rule_format, OF lt]
  have sp0: "point_at ?S 1 = vec_fround (solar_star_point example_draws 4000 (0 + 3 * 1))"
    and sl0: "vec_length (solar_star_point example_draws 4000 (0 + 3 * 1)) = 4000 * example_draws (0 + 3 * 1)"
    and sb: "vec_length (point_at ?S 1) \<le> 4000 * (1 + 1 / 2 ^ 23) + 1 / 2 ^ 148"
    by blast+
  note sp = sp0 [unfolded idx] and sl = sl0 [unfolded idx]
  from l have "\<forall>j<2. point_at ?L j = vec_fround (landing_star_point example_draws_landing 4000 (0 + 3 * j)) \<and>
                 vec_length (landing_star_point example_draws_landing 4000 (0 + 3 * j))
                   = 4000 * example_draws_landing (0 + 3 * j) \<and>
                 0 \<le> 4000 * example_draws_landing (0 + 3 * j) \<and> 4000 * example_draws_landing (0 + 3 * j) \<le> 4000 \<and>
                 0 \<le> vec_length (point_at ?L j) \<and>
                 vec_length (point_at ?L j) \<le> 4000 * (1 + 1 / 2 ^ 23) + 1 / 2 ^ 148"
    by blast
  from this [rule_format, OF lt]
  have lp0: "point_at ?L 1 = vec_fround (landing_star_point example_draws_landing 4000 (0 + 3 * 1))"
    and ll0: "vec_length (landing_star_point example_draws_landing 4000 (0 + 3 * 1))
               = 4000 * example_draws_landing (0 + 3 * 1)"
    and lb: "vec_length (point_at ?L 1) \<le> 4000 * (1 + 1 / 2 ^ 23) + 1 / 2 ^ 148"
    by blast+
  note lp = lp0 [unfolded idx] and ll = ll0 [unfolded idx]
  have sp': "point_at ?S 1 = vec_set (10033110 / 4096) (10033110 / 4096) 2000"
    unfolding sp by (rule example_star_stored)
  have lp': "point_at ?L 1 = vec_set (10033110 / 4096) (10033110 / 4096) 2000"
    unfolding lp by (rule example_star_stored)
  have so: "4000 < vec_length (point_at ?S 1)"
    unfolding sp' by (rule example_star_outside)
  have sl': "vec_length (solar_star_point example_draws 4000 3) = 3999.99996"
    using sl example_draws_at(1) [of 1] by simp
  have ll': "vec_length (landing_star_point example_draws_landing 4000 3) = 3999.99996"
    using ll example_draws_at(4) [of 1] by simp
  show ?thesis
    by (intro conjI) (rule h1 h1' h2 h3 sc sp' sl' sb so lc lp' ll' lb)+
qed

text \<open>
  With the radius draw \<open>0.99999999\<close>, the polar angle \<open>\<pi> / 3\<close> and the azimuth \<open>\<pi> / 4\<close>,
  the first star of the solar screen is computed at distance \<open>3999.99996\<close> and stored,
  after rounding, at \<open>(10033110 / 4096, 10033110 / 4096, 2000)\<close>, which is further than
  \<open>4000\<close> from the origin.
\<close>

theorem starfield_points_counterexample:
  "range example_draws \<subseteq> {0..<1} \<and>
   point_at (fst (solar_stars example_draws 0)) 0 = vec_set (10033110 / 4096) (10033110 / 4096) 2000 \<and>
   4000 < vec_length (point_at (fst (solar_stars example_draws 0)) 0)"
proof -
  have r: "range example_draws \<subseteq> {0..<1}"
    using example_draws_range(1) by auto
  have "point_at (fst (solar_stars example_draws 0)) 0
        = vec_fround (solar_star_point example_draws 4000 (0 + 3 * (0 - 0)))"
    unfolding solar_stars_def solar_starCount_def solar_starRadius_def
    by (rule solar_star_loop_point) (simp_all add: Float32Array_def)
  also have "\<dots> = vec_fround (solar_star_point example_draws 4000 (3 * 0))" by simp
  also have "\<dots> = vec_set (10033110 / 4096) (10033110 / 4096) 2000"
    by (rule example_star_stored)
  finally have p: "point_at (fst (solar_stars example_draws 0)) 0
                   = vec_set (10033110 / 4096) (10033110 / 4096) 2000" .
  have "4000 < vec_length (point_at (fst (solar_stars example_draws 0)) 0)"
    unfolding p by (rule example_star_outside)
  with r p show ?thesis by blast
qed

section \<open>The animation tick\<close>

lemma planets_solar_animate: "planets (solar_animate s) = map animate_planet (planets s)"
  by (simp add: solar_animate_def Let_def)

lemma animate_planet_position:
  "position (animate_planet m) =
     vec_set (cos (angle (userData (animate_planet m))) * orbitalRadius (userData (animate_planet m))) 0
             (sin (angle (userData (animate_planet m))) * orbitalRadius (userData (animate_planet m)))"
  by (simp add: animate_planet_def Let_def)

lemma animate_planet_userData:
  "userData (animate_planet m) = (userData m)\<lparr>angle := angle (userData m) + speed (userData m)\<rparr>"
  by (simp add: animate_planet_def Let_def)

lemma animate_planet_funpow_userData:
  "userData ((animate_planet ^^ n) m) = (userData m)\<lparr>angle := angle (userData m) + real n * speed (userData m)\<rparr>"
  by (induction n) (simp_all add: animate_planet_userData algebra_simps)

lemma planets_solar_animate_funpow:
  "planets ((solar_animate ^^ n) s) = map (animate_planet ^^ n) (planets s)"
  by (induction n) (simp_all add: planets_solar_animate)

text \<open>
  Claim C6. A planet with \<^verbatim>\<open>orbitalRadius = 150\<close>, \<^verbatim>\<open>speed = 0.01\<close> and angle \<open>0\<close> has,
  after exactly \<open>100\<close> calls of \<^verbatim>\<open>animate\<close>, the angle \<open>1\<close> and the position
  \<open>(cos 1 * 150, 0, sin 1 * 150)\<close>. (Over the reals the hundred additions of \<open>0.01\<close>
  give \<open>1\<close> exactly; the claim's approximate equalities allow for the rounding of
  doubles.)
\<close>

theorem hundred_ticks:
  assumes "i < length (planets s)"
    and "orbitalRadius (userData (planets s ! i)) = 150"
    and "speed (userData (planets s ! i)) = 0.01"
    and "angle (userData (planets s ! i)) = 0"
  shows "angle (userData (planets ((solar_animate ^^ 100) s) ! i)) = 1 \<and>
         position (planets ((solar_animate ^^ 100) s) ! i) = vec_set (cos 1 * 150) 0 (sin 1 * 150)"
proof -
  let ?m = "planets s ! i"
  have nth: "planets ((solar_animate ^^ 100) s) ! i = (animate_planet ^^ 100) ?m"
    using assms(1) by (simp add: planets_solar_animate_funpow)
  have ud: "userData ((animate_planet ^^ 100) ?m) = (userData ?m)\<lparr>angle := 1\<rparr>"
    using assms by (simp add: animate_planet_funpow_userData)
  have "(animate_planet ^^ 100) ?m = animate_planet ((animate_planet ^^ 99) ?m)"
    by (simp add: numeral_eq_Suc)
  then have "position ((animate_planet ^^ 100) ?m) =
     vec_set (cos (angle (userData ((animate_planet ^^ 100) ?m))) * orbitalRadius (userData ((animate_planet ^^ 100) ?m))) 0
             (sin (angle (userData ((animate_planet ^^ 100) ?m))) * orbitalRadius (userData ((animate_planet ^^ 100) ?m)))"
    using animate_planet_position [of "(animate_planet ^^ 99) ?m"] by simp
  with ud assms show ?thesis by (simp add: nth)
qed

theorem hundred_ticks_witness:
  "0 < length (planets example_solar) \<and>
   orbitalRadius (userData (planets example_solar ! 0)) = 150 \<and>
   speed (userData (planets example_solar ! 0)) = 0.01 \<and>
   angle (userData (planets example_solar ! 0)) = 0 \<and>
   angle (userData (planets ((solar_animate ^^ 100) example_solar) ! 0)) = 1 \<and>
   position (planets ((solar_animate ^^ 100) example_solar) ! 0) = vec_set (cos 1 * 150) 0 (sin 1 * 150)"
proof -
  have h: "0 < length (planets example_solar)"
    "orbitalRadius (userData (planets example_solar ! 0)) = 150"
    "speed (userData (planets example_solar ! 0)) = 0.01"
    "angle (userData (planets example_solar ! 0)) = 0"
    by (simp_all add: example_solar_def example_planet_def)
  from h hundred_ticks [OF h] show ?thesis by simp
qed

section \<open>Activation\<close>

subsection \<open>What activation builds\<close>

lemma create_planets_config:
  "map (\<lambda>m. (name (userData m), content (userData m), orbitalRadius (userData m), speed (userData m)))
       (fst (snd (create_planets rnd ds (sc, ps, k))))
   = map (\<lambda>m. (name (userData m), content (userData m), orbitalRadius (userData m), speed (userData m))) ps
     @ map (\<lambda>d. (data_name d, data_content d, data_orbitalRadius d, data_speed d)) ds"
  by (induction ds arbitrary: sc ps k) (simp_all add: Let_def)

lemma create_planets_origin:
  "\<forall>m \<in> set ps. position m = vec_set 0 0 0 \<Longrightarrow>
   \<forall>m \<in> set (fst (snd (create_planets rnd ds (sc, ps, k)))). position m = vec_set 0 0 0"
proof (induction ds arbitrary: sc ps k)
  case Nil
  then show ?case by simp
next
  case (Cons d ds)
  show ?case
    unfolding create_planets.simps Let_def
    by (rule Cons.IH) (use Cons.prems in simp)
qed

lemma create_planets_scene_length:
  "length (fst (create_planets rnd ds (sc, ps, k))) = length sc + 2 * length ds"
  by (induction ds arbitrary: sc ps k) (simp_all add: Let_def)

lemma solar_setup_config:
  "map (\<lambda>m. (name (userData m), content (userData m), orbitalRadius (userData m), speed (userData m)))
       (planets (fst (solar_setup rnd k)))
   = map (\<lambda>d. (data_name d, data_content d, data_orbitalRadius d, data_speed d)) planetsData"
  using create_planets_config [of rnd planetsData _ "[]"]
  by (simp add: solar_setup_def Let_def split_beta)

lemma solar_setup_origin:
  "\<forall>m \<in> set (planets (fst (solar_setup rnd k))). position m = vec_set 0 0 0"
  using create_planets_origin [of "[]" rnd planetsData]
  by (simp add: solar_setup_def Let_def split_beta)

lemma solar_setup_fields:
  "solar_camera (fst (solar_setup rnd k)) = vec_set 0 200 800"
  "solar_animating (fst (solar_setup rnd k)) = False"
  "solar_mouseX (fst (solar_setup rnd k)) = 0"
  "solar_mouseY (fst (solar_setup rnd k)) = 0"
  "length (solar_scene (fst (solar_setup rnd k))) = 14"
  by (simp_all add: solar_setup_def Let_def split_beta create_planets_scene_length planetsData_def)

lemma initSolarSystem_guard:
  "solar_scene_el p = None \<or> (\<exists>c. solar_scene_el p = Some c \<and> truthy (dataset_initialised c)) \<Longrightarrow>
   initSolarSystem p = (Returned, p)"
  by (auto simp add: initSolarSystem_def)

lemma initSolarSystem_sets_flag:
  "solar_scene_el p = Some c \<Longrightarrow>
   \<exists>c'. solar_scene_el (snd (initSolarSystem p)) = Some c' \<and> truthy (dataset_initialised c')"
  by (simp add: initSolarSystem_def Let_def split_beta truthy_def split: option.splits)

lemma initSolarSystem_solars:
  "solars (snd (initSolarSystem p)) = solars p \<or>
   solars (snd (initSolarSystem p)) = solars p @ [fst (solar_setup (random p) (random_drawn p))] \<or>
   solars (snd (initSolarSystem p)) = solars p @ [solar_animate (fst (solar_setup (random p) (random_drawn p)))]"
  by (simp add: initSolarSystem_def Let_def split_beta split: option.splits)

lemma initSolarSystem_twice:
  "initSolarSystem (snd (initSolarSystem p)) = (Returned, snd (initSolarSystem p))"
proof (cases "solar_scene_el p")
  case None
  then show ?thesis by (simp add: initSolarSystem_guard)
next
  case (Some c)
  from initSolarSystem_sets_flag [OF this] show ?thesis
    by (intro initSolarSystem_guard) blast
qed

lemma activations_Suc:
  "((\<lambda>q. snd (initSolarSystem q)) ^^ Suc n) p = snd (initSolarSystem p)"
proof (induction n)
  case 0
  then show ?case by simp
next
  case (Suc n)
  have "((\<lambda>q. snd (initSolarSystem q)) ^^ Suc (Suc n)) p
        = snd (initSolarSystem (((\<lambda>q. snd (initSolarSystem q)) ^^ Suc n) p))"
    by simp
  also have "\<dots> = snd (initSolarSystem (snd (initSolarSystem p)))"
    by (simp only: Suc.IH)
  also have "\<dots> = snd (initSolarSystem p)"
    by (simp add: initSolarSystem_twice)
  finally show ?case .
qed

text \<open>
  Claim C2. Calling \<^verbatim>\<open>initSolarSystem\<close> \<open>n + 1\<close> times in a row leaves the page (its
  closures with their scenes, its listeners, and everything else) exactly as one call
  does, and a call after the first returns without changing anything: the first call
  finds the canvas missing, or finds the flag set, or sets it. On a canvas whose flag is
  already set every call returns and changes nothing.
\<close>

theorem activation_idempotent:
  "((\<lambda>q. snd (initSolarSystem q)) ^^ Suc n) p = snd (initSolarSystem p) \<and>
   initSolarSystem (((\<lambda>q. snd (initSolarSystem q)) ^^ Suc n) p)
     = (Returned, ((\<lambda>q. snd (initSolarSystem q)) ^^ Suc n) p) \<and>
   ((\<exists>c. solar_scene_el p = Some c \<and> truthy (dataset_initialised c)) \<longrightarrow>
      initSolarSystem p = (Returned, p) \<and> ((\<lambda>q. snd (initSolarSystem q)) ^^ n) p = p)"
proof -
  have a: "((\<lambda>q. snd (initSolarSystem q)) ^^ Suc n) p = snd (initSolarSystem p)"
    by (rule activations_Suc)
  have b: "initSolarSystem (((\<lambda>q. snd (initSolarSystem q)) ^^ Suc n) p)
     = (Returned, ((\<lambda>q. snd (initSolarSystem q)) ^^ Suc n) p)"
    by (simp only: a initSolarSystem_twice)
  have c: "initSolarSystem p = (Returned, p) \<and> ((\<lambda>q. snd (initSolarSystem q)) ^^ n) p = p"
    if "\<exists>c. solar_scene_el p = Some c \<and> truthy (dataset_initialised c)"
  proof -
    from that have i: "initSolarSystem p = (Returned, p)" by (intro initSolarSystem_guard) blast
    have "((\<lambda>q. snd (initSolarSystem q)) ^^ m) p = p" for m
      by (induction m) (simp_all add: i)
    with i show ?thesis by simp
  qed
  from a b c show ?thesis by blast
qed

theorem activation_idempotent_witness:
  "((\<lambda>q. snd (initSolarSystem q)) ^^ Suc 2) example_loaded = snd (initSolarSystem example_loaded) \<and>
   (\<exists>c. solar_scene_el example_active = Some c \<and> truthy (dataset_initialised c)) \<and>
   initSolarSystem example_active = (Returned, example_active) \<and>
   ((\<lambda>q. snd (initSolarSystem q)) ^^ 2) example_active = example_active \<and>
   map (\<lambda>s. length (solar_scene s)) (solars example_active) = [14]"
proof -
  have h: "\<exists>c. solar_scene_el example_active = Some c \<and> truthy (dataset_initialised c)"
    by (simp add: example_active_fields truthy_def)
  have n: "map (\<lambda>s. length (solar_scene s)) (solars example_active) = [14]"
    by (simp add: example_active_fields solar_animate_def Let_def solar_setup_fields)
  from h n activation_idempotent [where n = 2 and p = example_loaded]
    activation_idempotent [where n = 2 and p = example_active]
  show ?thesis by blast
qed

text \<open>
  Claim C8. When the element \<^verbatim>\<open>#solar-scene\<close> is missing, \<^verbatim>\<open>initSolarSystem\<close> returns (it
  does not throw) and the page is unchanged: no closure and no scene is created, no
  listener is registered, \<^verbatim>\<open>animate\<close> is not started.
\<close>

theorem missing_canvas_noop:
  "solar_scene_el p = None \<Longrightarrow> initSolarSystem p = (Returned, p)"
  by (simp add: initSolarSystem_def)

theorem missing_canvas_noop_witness:
  "solar_scene_el (example_page\<lparr>solar_scene_el := None\<rparr>) = None \<and>
   initSolarSystem (example_page\<lparr>solar_scene_el := None\<rparr>) = (Returned, example_page\<lparr>solar_scene_el := None\<rparr>)"
proof -
  have h: "solar_scene_el (example_page\<lparr>solar_scene_el := None\<rparr>) = None" by simp
  from h missing_canvas_noop [OF h] show ?thesis by simp
qed

subsection \<open>Invariants of the closures\<close>

lemma solars_iconClick: "solars (iconClick p) = solars p"
  by (simp add: iconClick_def Let_def)

lemma solars_onCanvasClick: "solars (snd (onCanvasClick rc e d s p)) = solars p"
  by (simp add: onCanvasClick_def Let_def split: list.splits option.splits)

lemma solars_closeClick: "solars (snd (closeClick p)) = solars p"
  by (simp add: closeClick_def split: option.splits)

lemma solars_closeTimeout: "solars (snd (closeTimeout p)) = solars p"
  by (simp add: closeTimeout_def split: option.splits)

lemma list_all_update_solar:
  "list_all Q (solars p) \<Longrightarrow> (\<And>s. Q s \<Longrightarrow> Q (f s)) \<Longrightarrow> list_all Q (solars (update_solar i f p))"
  by (auto simp add: update_solar_def list_all_length nth_list_update)

lemma call_listener_solars:
  assumes "list_all Q (solars p)"
    and "\<And>e s. Q s \<Longrightarrow> Q (solar_onWheel e s)"
    and "\<And>w h e s. Q s \<Longrightarrow> Q (solar_onMouseMove w h e s)"
  shows "list_all Q (solars (call_listener rc ev l p))"
  using assms
  by (simp add: call_listener_def solars_iconClick solars_onCanvasClick solars_closeClick
        list_all_update_solar split: listener.splits event.splits option.splits)

lemma dispatch_solars:
  assumes "list_all Q (solars p)"
    and "\<And>e s. Q s \<Longrightarrow> Q (solar_onWheel e s)"
    and "\<And>w h e s. Q s \<Longrightarrow> Q (solar_onMouseMove w h e s)"
  shows "list_all Q (solars (dispatch rc ev ty ls p))"
proof -
  have "list_all Q (solars (fold (call_listener rc ev) hs p))" for hs
    using assms(1)
  proof (induction hs arbitrary: p)
    case Nil
    then show ?case by simp
  next
    case (Cons h hs)
    from call_listener_solars [of Q p, OF Cons.prems assms(2,3)]
    have "list_all Q (solars (call_listener rc ev h p))" .
    from Cons.IH [OF this] show ?case by simp
  qed
  then show ?thesis by (simp add: dispatch_def)
qed

lemma initSolarSystem_solars_inv:
  assumes "list_all Q (solars p)"
    and "\<And>rnd k. Q (fst (solar_setup rnd k))"
    and "\<And>rnd k. Q (solar_animate (fst (solar_setup rnd k)))"
  shows "list_all Q (solars (snd (initSolarSystem p)))"
  using initSolarSystem_solars [of p] assms by auto

lemma onComplete_solars_inv:
  assumes "list_all Q (solars p)"
    and "\<And>rnd k. Q (fst (solar_setup rnd k))"
    and "\<And>rnd k. Q (solar_animate (fst (solar_setup rnd k)))"
  shows "list_all Q (solars (snd (onComplete p)))"
proof (cases "solar_container p")
  case None
  with assms(1) show ?thesis by (simp add: onComplete_def)
next
  case (Some c)
  let ?p1 = "p\<lparr>solar_container := Some (c\<lparr>classList := classList_remove ''hidden'' (classList c)\<rparr>)\<rparr>"
  have "list_all Q (solars ?p1)" using assms(1) by simp
  from initSolarSystem_solars_inv [of Q ?p1, OF this assms(2,3)] assms(1) Some
  show ?thesis by (simp add: onComplete_def Let_def)
qed

lemma step_solars_inv:
  assumes "list_all Q (solars p)"
    and "\<And>e s. Q s \<Longrightarrow> Q (solar_onWheel e s)"
    and "\<And>w h e s. Q s \<Longrightarrow> Q (solar_onMouseMove w h e s)"
    and "\<And>s. Q s \<Longrightarrow> Q (solar_animate s)"
    and "\<And>rnd k. Q (fst (solar_setup rnd k))"
    and "\<And>rnd k. Q (solar_animate (fst (solar_setup rnd k)))"
  shows "list_all Q (solars (step rc p ev))"
proof (cases ev)
  case (MouseMove e)
  with dispatch_solars [of Q p, OF assms(1-3)] show ?thesis by simp
next
  case (Wheel e)
  with dispatch_solars [of Q p, OF assms(1-3)] show ?thesis by simp
next
  case (Resize w h)
  have "list_all Q (solars (p\<lparr>window_innerWidth := w, window_innerHeight := h\<rparr>))"
    using assms(1) by simp
  from dispatch_solars [of Q _, OF this assms(2,3)] Resize show ?thesis by simp
next
  case (CanvasClick e)
  with dispatch_solars [of Q p, OF assms(1-3)] assms(1) show ?thesis
    by (simp split: option.splits)
next
  case CloseClick
  with dispatch_solars [of Q p, OF assms(1-3)] assms(1) show ?thesis
    by (simp split: option.splits)
next
  case IconClick
  with dispatch_solars [of Q p, OF assms(1-3)] assms(1) show ?thesis
    by (simp split: option.splits)
next
  case IntroComplete
  have "list_all Q (solars (p\<lparr>intro_tweens := intro_tweens p - 1\<rparr>))"
    using assms(1) by simp
  from onComplete_solars_inv [of Q _, OF this assms(5,6)] assms(1) IntroComplete
  show ?thesis by simp
next
  case CloseTimeout
  with assms(1) show ?thesis by (simp add: solars_closeTimeout)
next
  case AnimationFrame
  with assms(1,4) show ?thesis by (auto simp add: list_all_iff)
qed

lemma run_solars_inv:
  assumes "list_all Q (solars p)"
    and "\<And>e s. Q s \<Longrightarrow> Q (solar_onWheel e s)"
    and "\<And>w h e s. Q s \<Longrightarrow> Q (solar_onMouseMove w h e s)"
    and "\<And>s. Q s \<Longrightarrow> Q (solar_animate s)"
    and "\<And>rnd k. Q (fst (solar_setup rnd k))"
    and "\<And>rnd k. Q (solar_animate (fst (solar_setup rnd k)))"
  shows "list_all Q (solars (run rc p es))"
  using assms(1)
proof (induction es arbitrary: p)
  case Nil
  then show ?case by (simp add: run_def)
next
  case (Cons e es)
  from step_solars_inv [of Q p, OF Cons.prems assms(2-6)]
  have "list_all Q (solars (step rc p e))" .
  from Cons.IH [OF this] show ?case by (simp add: run_def)
qed

section \<open>Orbits\<close>

lemma solar_onWheel_frame:
  "solar_scene (solar_onWheel e s) = solar_scene s"
  "planets (solar_onWheel e s) = planets s"
  "solar_mouseX (solar_onWheel e s) = solar_mouseX s"
  "solar_mouseY (solar_onWheel e s) = solar_mouseY s"
  "solar_animating (solar_onWheel e s) = solar_animating s"
  "vec_x (solar_camera (solar_onWheel e s)) = vec_x (solar_camera s)"
  "vec_y (solar_camera (solar_onWheel e s)) = vec_y (solar_camera s)"
  by (simp_all add: solar_onWheel_def Let_def)

lemma solar_onMouseMove_frame:
  "solar_scene (solar_onMouseMove w h e s) = solar_scene s"
  "planets (solar_onMouseMove w h e s) = planets s"
  "solar_camera (solar_onMouseMove w h e s) = solar_camera s"
  "solar_animating (solar_onMouseMove w h e s) = solar_animating s"
  by (simp_all add: solar_onMouseMove_def)

lemma solar_animating_animate: "solar_animating (solar_animate s)"
  by (simp add: solar_animate_def Let_def)

lemma orbit_tick:
  "\<forall>m \<in> set (planets (solar_animate s)).
     position m = vec_set (cos (angle (userData m)) * orbitalRadius (userData m)) 0
                          (sin (angle (userData m)) * orbitalRadius (userData m)) \<and>
     vec_y (position m) = 0"
  by (auto simp add: planets_solar_animate animate_planet_position vec_set_def)

text \<open>
  Claim C1. After a call of \<^verbatim>\<open>animate\<close>, every planet's stored position is
  \<open>(cos angle * orbitalRadius, 0, sin angle * orbitalRadius)\<close> for the angle and radius
  that its \<^verbatim>\<open>userData\<close> holds at that moment; the position is computed from these two
  alone, and its \<open>y\<close> is \<open>0\<close>. Over any run of the page that starts without a solar
  system, whatever the events, every planet has \<open>y = 0\<close>, and every planet of a closure
  whose \<^verbatim>\<open>animate\<close> has run is at the position given by its current angle.
\<close>

theorem orbit_position:
  "(\<forall>m \<in> set (planets (solar_animate s)).
      position m = vec_set (cos (angle (userData m)) * orbitalRadius (userData m)) 0
                           (sin (angle (userData m)) * orbitalRadius (userData m)) \<and>
      vec_y (position m) = 0) \<and>
   (solars p = [] \<longrightarrow>
      (\<forall>s' \<in> set (solars (run rc p es)). \<forall>m \<in> set (planets s').
         vec_y (position m) = 0 \<and>
         (solar_animating s' \<longrightarrow>
            position m = vec_set (cos (angle (userData m)) * orbitalRadius (userData m)) 0
                                 (sin (angle (userData m)) * orbitalRadius (userData m)))))"
proof -
  define Q where "Q = (\<lambda>s'::solar_state. \<forall>m \<in> set (planets s').
         vec_y (position m) = 0 \<and>
         (solar_animating s' \<longrightarrow>
            position m = vec_set (cos (angle (userData m)) * orbitalRadius (userData m)) 0
                                 (sin (angle (userData m)) * orbitalRadius (userData m))))"
  have tick: "Q (solar_animate s')" for s'
    using orbit_tick [of s'] unfolding Q_def by blast
  have wheel: "Q (solar_onWheel e s')" if "Q s'" for e s'
    using that by (simp add: Q_def solar_onWheel_frame)
  have mouse: "Q (solar_onMouseMove w h e s')" if "Q s'" for w h e s'
    using that by (simp add: Q_def solar_onMouseMove_frame)
  have fresh: "Q (fst (solar_setup rnd k))" for rnd k
    using solar_setup_origin [of rnd k] by (simp add: Q_def solar_setup_fields vec_set_def)
  have "list_all Q (solars (run rc p es))" if "solars p = []"
    by (rule run_solars_inv) (use that wheel mouse tick fresh in simp_all)
  with orbit_tick [of s] show ?thesis
    unfolding Q_def list_all_iff by blast
qed

theorem orbit_position_witness:
  "planets (solar_animate example_solar) =
     [example_planet\<lparr>userData := (userData example_planet)\<lparr>angle := 0.01\<rparr>,
                     position := vec_set (cos 0.01 * 150) 0 (sin 0.01 * 150),
                     rotation_y := 0.01\<rparr>] \<and>
   list_all (\<lambda>m. position m = vec_set (cos (angle (userData m)) * orbitalRadius (userData m)) 0
                                     (sin (angle (userData m)) * orbitalRadius (userData m)) \<and>
                  vec_y (position m) = 0)
     (planets (solar_animate example_solar)) \<and>
   solars example_loaded = [] \<and>
   map solar_animating (solars (run example_raycaster example_loaded [IconClick, IntroComplete, AnimationFrame])) = [True] \<and>
   list_all (\<lambda>s'. list_all (\<lambda>m. vec_y (position m) = 0 \<and>
                       position m = vec_set (cos (angle (userData m)) * orbitalRadius (userData m)) 0
                                            (sin (angle (userData m)) * orbitalRadius (userData m)))
                  (planets s'))
     (solars (run example_raycaster example_loaded [IconClick, IntroComplete, AnimationFrame]))"
proof -
  let ?p = "run example_raycaster example_loaded [IconClick, IntroComplete, AnimationFrame]"
  have ev: "planets (solar_animate example_solar) =
     [example_planet\<lparr>userData := (userData example_planet)\<lparr>angle := 0.01\<rparr>,
                     position := vec_set (cos 0.01 * 150) 0 (sin 0.01 * 150),
                     rotation_y := 0.01\<rparr>]"
    by (simp add: solar_animate_def animate_planet_def example_solar_def example_planet_def Let_def)
  have h: "solars example_loaded = []" by (rule example_loaded_fields)
  have "?p = step example_raycaster example_active AnimationFrame"
    by (simp add: example_active_def run_def)
  then have live: "map solar_animating (solars ?p) = [True]"
    by (simp add: example_active_fields solar_animating_animate)
  have "set (map solar_animating (solars ?p)) = {True}"
    by (simp only: live) simp
  then have all_live: "\<forall>s' \<in> set (solars ?p). solar_animating s'" by auto
  note inst = orbit_position [where s = example_solar and p = example_loaded and rc = example_raycaster
      and es = "[IconClick, IntroComplete, AnimationFrame]"]
  from inst have tick: "list_all (\<lambda>m. position m = vec_set (cos (angle (userData m)) * orbitalRadius (userData m)) 0
                                     (sin (angle (userData m)) * orbitalRadius (userData m)) \<and>
                  vec_y (position m) = 0)
     (planets (solar_animate example_solar))"
    unfolding list_all_iff by blast
  from inst h all_live have runs: "list_all (\<lambda>s'. list_all (\<lambda>m. vec_y (position m) = 0 \<and>
                       position m = vec_set (cos (angle (userData m)) * orbitalRadius (userData m)) 0
                                            (sin (angle (userData m)) * orbitalRadius (userData m)))
                  (planets s'))
     (solars ?p)"
    unfolding list_all_iff by blast
  show ?thesis
    by (intro conjI) (rule ev tick h live runs)+
qed

section \<open>What a wheel event changes\<close>

lemma landing_onWheel_frame:
  "stars (landing_onWheel e l) = stars l"
  "stars_rotation_x (landing_onWheel e l) = stars_rotation_x l"
  "stars_rotation_y (landing_onWheel e l) = stars_rotation_y l"
  "targetX (landing_onWheel e l) = targetX l"
  "targetY (landing_onWheel e l) = targetY l"
  "landing_mouseX (landing_onWheel e l) = landing_mouseX l"
  "landing_mouseY (landing_onWheel e l) = landing_mouseY l"
  "vec_x (landing_camera (landing_onWheel e l)) = vec_x (landing_camera l)"
  "vec_y (landing_camera (landing_onWheel e l)) = vec_y (landing_camera l)"
  by (simp_all add: landing_onWheel_def Let_def)

lemma solar_without_zoom_onWheel: "solar_without_zoom (solar_onWheel e s) = solar_without_zoom s"
  by (simp add: solar_without_zoom_def without_z_def solar_onWheel_def Let_def)

lemma landing_without_zoom_onWheel: "landing_without_zoom (landing_onWheel e l) = landing_without_zoom l"
  by (simp add: landing_without_zoom_def without_z_def landing_onWheel_def Let_def)

lemma map_update_same:
  "i < length xs \<Longrightarrow> f (g (xs ! i)) = f (xs ! i) \<Longrightarrow> map f (xs[i := g (xs ! i)]) = map f xs"
  by (simp add: map_update list_update_same_conv)

lemma call_listener_Wheel:
  "call_listener rc (Wheel e) l q\<lparr>landing := landing q, solars := solars q\<rparr> = q \<and>
   map solar_without_zoom (solars (call_listener rc (Wheel e) l q)) = map solar_without_zoom (solars q) \<and>
   map_option landing_without_zoom (landing (call_listener rc (Wheel e) l q))
     = map_option landing_without_zoom (landing q)"
proof (cases l)
  case Landing_onWheel
  then show ?thesis
    by (simp add: call_listener_def option.map_comp comp_def landing_without_zoom_onWheel)
next
  case (Solar_onWheel i)
  then show ?thesis
    by (simp add: call_listener_def update_solar_def map_update_same solar_without_zoom_onWheel)
qed (simp_all add: call_listener_def)

lemma fold_call_listener_Wheel:
  "fold (call_listener rc (Wheel e)) hs q\<lparr>landing := landing q, solars := solars q\<rparr> = q \<and>
   map solar_without_zoom (solars (fold (call_listener rc (Wheel e)) hs q)) = map solar_without_zoom (solars q) \<and>
   map_option landing_without_zoom (landing (fold (call_listener rc (Wheel e)) hs q))
     = map_option landing_without_zoom (landing q)"
proof (induction hs arbitrary: q)
  case Nil
  then show ?case by simp
next
  case (Cons h hs)
  let ?q1 = "call_listener rc (Wheel e) h q"
  let ?q2 = "fold (call_listener rc (Wheel e)) hs ?q1"
  from Cons.IH [of ?q1] call_listener_Wheel [where rc = rc and e = e and l = h and q = q]
  have a: "?q2\<lparr>landing := landing ?q1, solars := solars ?q1\<rparr> = ?q1"
    and b: "?q1\<lparr>landing := landing q, solars := solars q\<rparr> = q"
    and c: "map solar_without_zoom (solars ?q2) = map solar_without_zoom (solars q)"
    and d: "map_option landing_without_zoom (landing ?q2) = map_option landing_without_zoom (landing q)"
    by simp_all
  have "?q2\<lparr>landing := landing q, solars := solars q\<rparr>
        = (?q2\<lparr>landing := landing ?q1, solars := solars ?q1\<rparr>)\<lparr>landing := landing q, solars := solars q\<rparr>"
    by simp
  also have "\<dots> = q" by (simp only: a b)
  finally show ?case using c d by simp
qed

text \<open>
  Claim C9. On either screen \<^verbatim>\<open>onWheel\<close> changes nothing but the camera's \<open>z\<close>: the
  camera's \<open>x\<close> and \<open>y\<close>, the scene, the planets (so their angles), and the parallax
  scalars stay as they are. For a wheel event delivered to the page, nothing outside the
  closures of the two screens changes, and these change in the camera's \<open>z\<close> only.
\<close>

theorem wheel_changes_zoom_only:
  "vec_x (solar_camera (solar_onWheel e s)) = vec_x (solar_camera s) \<and>
   vec_y (solar_camera (solar_onWheel e s)) = vec_y (solar_camera s) \<and>
   solar_scene (solar_onWheel e s) = solar_scene s \<and>
   planets (solar_onWheel e s) = planets s \<and>
   solar_mouseX (solar_onWheel e s) = solar_mouseX s \<and>
   solar_mouseY (solar_onWheel e s) = solar_mouseY s \<and>
   vec_x (landing_camera (landing_onWheel e l)) = vec_x (landing_camera l) \<and>
   vec_y (landing_camera (landing_onWheel e l)) = vec_y (landing_camera l) \<and>
   stars (landing_onWheel e l) = stars l \<and>
   targetX (landing_onWheel e l) = targetX l \<and>
   targetY (landing_onWheel e l) = targetY l \<and>
   landing_mouseX (landing_onWheel e l) = landing_mouseX l \<and>
   landing_mouseY (landing_onWheel e l) = landing_mouseY l \<and>
   step rc p (Wheel e)\<lparr>landing := landing p, solars := solars p\<rparr> = p \<and>
   map solar_without_zoom (solars (step rc p (Wheel e))) = map solar_without_zoom (solars p) \<and>
   map_option landing_without_zoom (landing (step rc p (Wheel e))) = map_option landing_without_zoom (landing p)"
  using fold_call_listener_Wheel [where rc = rc and e = e and q = p]
  by (simp add: solar_onWheel_frame landing_onWheel_frame dispatch_def)

theorem wheel_changes_zoom_only_witness:
  "vec_z (solar_camera (hd (solars example_active))) = 800 \<and>
   vec_z (solar_camera (hd (solars (step example_raycaster example_active (Wheel \<lparr>deltaY = 1000\<rparr>))))) = 1300 \<and>
   step example_raycaster example_active (Wheel \<lparr>deltaY = 1000\<rparr>)
     \<lparr>landing := landing example_active, solars := solars example_active\<rparr> = example_active \<and>
   map solar_without_zoom (solars (step example_raycaster example_active (Wheel \<lparr>deltaY = 1000\<rparr>)))
     = map solar_without_zoom (solars example_active) \<and>
   map_option landing_without_zoom (landing (step example_raycaster example_active (Wheel \<lparr>deltaY = 1000\<rparr>)))
     = map_option landing_without_zoom (landing example_active)"
proof -
  have a: "vec_z (solar_camera (hd (solars example_active))) = 800"
    by (simp add: example_active_fields solar_animate_def Let_def solar_setup_fields vec_set_def)
  have b: "vec_z (solar_camera (hd (solars (step example_raycaster example_active (Wheel \<lparr>deltaY = 1000\<rparr>))))) = 1300"
    by (simp add: dispatch_def call_listener_def update_solar_def example_active_fields
        solar_onWheel_z solar_minZoom_def solar_maxZoom_def
        solar_animate_def Let_def solar_setup_fields vec_set_def)
  from a b
    wheel_changes_zoom_only [where e = "\<lparr>deltaY = 1000\<rparr>" and s = example_solar and l = example_landing
      and rc = example_raycaster and p = example_active]
  show ?thesis by blast
qed

section \<open>The click on the icon\<close>

subsection \<open>The listeners of the window\<close>

lemma landing_listening_iconClick: "\<not> landing_listening (iconClick p)"
  by (simp add: landing_listening_def iconClick_def Let_def removeEventListener_def)

lemma window_listeners_update_solar: "window_listeners (update_solar i f p) = window_listeners p"
  by (simp add: update_solar_def)

lemma window_listeners_onCanvasClick: "window_listeners (snd (onCanvasClick rc e d s p)) = window_listeners p"
  by (simp add: onCanvasClick_def Let_def split: list.splits option.splits)

lemma window_listeners_closeClick: "window_listeners (snd (closeClick p)) = window_listeners p"
  by (simp add: closeClick_def split: option.splits)

lemma window_listeners_closeTimeout: "window_listeners (snd (closeTimeout p)) = window_listeners p"
  by (simp add: closeTimeout_def split: option.splits)

lemma window_listeners_call_listener:
  "window_listeners (call_listener rc ev l p) = window_listeners p \<or>
   call_listener rc ev l p = iconClick p"
  by (simp add: call_listener_def window_listeners_update_solar
        window_listeners_onCanvasClick window_listeners_closeClick
        split: listener.splits event.splits option.splits)

lemma landing_listening_call_listener:
  "\<not> landing_listening p \<Longrightarrow> \<not> landing_listening (call_listener rc ev l p)"
  using window_listeners_call_listener [of rc ev l p] landing_listening_iconClick [of p]
  by (auto simp add: landing_listening_def)

lemma landing_listening_fold:
  "\<not> landing_listening p \<Longrightarrow> \<not> landing_listening (fold (call_listener rc ev) hs p)"
  by (induction hs arbitrary: p) (simp_all add: landing_listening_call_listener)

lemma landing_listening_initSolarSystem:
  "\<not> landing_listening p \<Longrightarrow> \<not> landing_listening (snd (initSolarSystem p))"
  by (auto simp add: initSolarSystem_def Let_def split_beta landing_listening_def addEventListener_def
        split: option.splits)

lemma landing_listening_onComplete:
  "\<not> landing_listening p \<Longrightarrow> \<not> landing_listening (snd (onComplete p))"
proof (cases "solar_container p")
  case None
  then show "\<not> landing_listening p \<Longrightarrow> ?thesis" by (simp add: onComplete_def)
next
  case (Some c)
  assume a: "\<not> landing_listening p"
  let ?p1 = "p\<lparr>solar_container := Some (c\<lparr>classList := classList_remove ''hidden'' (classList c)\<rparr>)\<rparr>"
  from a have "\<not> landing_listening ?p1" by (simp add: landing_listening_def)
  from landing_listening_initSolarSystem [OF this] this Some show ?thesis
    by (simp add: onComplete_def Let_def)
qed

lemma landing_listening_step:
  assumes "\<not> landing_listening p"
  shows "\<not> landing_listening (step rc p ev)"
proof (cases ev)
  case (Resize w h)
  from assms have "\<not> landing_listening (p\<lparr>window_innerWidth := w, window_innerHeight := h\<rparr>)"
    by (simp add: landing_listening_def)
  from landing_listening_fold [OF this] Resize show ?thesis by (simp add: dispatch_def)
next
  case IntroComplete
  from assms have "\<not> landing_listening (p\<lparr>intro_tweens := intro_tweens p - 1\<rparr>)"
    by (simp add: landing_listening_def)
  from landing_listening_onComplete [OF this] assms IntroComplete show ?thesis by simp
next
  case CloseTimeout
  with assms show ?thesis by (simp add: landing_listening_def window_listeners_closeTimeout)
next
  case AnimationFrame
  with assms show ?thesis by (simp add: landing_listening_def)
qed (use assms landing_listening_fold [OF assms] in \<open>simp_all add: dispatch_def split: option.splits\<close>)

lemma landing_listening_run:
  "\<not> landing_listening p \<Longrightarrow> \<not> landing_listening (run rc p es)"
proof (induction es arbitrary: p)
  case Nil
  then show ?case by (simp add: run_def)
next
  case (Cons e es)
  from Cons.IH [OF landing_listening_step [OF Cons.prems]] show ?case by (simp add: run_def)
qed

lemma landing_update_solar: "landing (update_solar i f p) = landing p"
  by (simp add: update_solar_def)

lemma landing_call_listener_MouseMove:
  "Landing_onMouseMove \<noteq> l \<Longrightarrow> landing (call_listener rc (MouseMove e) l p) = landing p"
  by (simp add: call_listener_def landing_update_solar split: listener.splits)

lemma landing_call_listener_Wheel:
  "Landing_onWheel \<noteq> l \<Longrightarrow> landing (call_listener rc (Wheel e) l p) = landing p"
  by (simp add: call_listener_def landing_update_solar split: listener.splits)

lemma landing_fold_MouseMove:
  "Landing_onMouseMove \<notin> set hs \<Longrightarrow> landing (fold (call_listener rc (MouseMove e)) hs p) = landing p"
  by (induction hs arbitrary: p) (simp_all add: landing_call_listener_MouseMove)

lemma landing_fold_Wheel:
  "Landing_onWheel \<notin> set hs \<Longrightarrow> landing (fold (call_listener rc (Wheel e)) hs p) = landing p"
  by (induction hs arbitrary: p) (simp_all add: landing_call_listener_Wheel)

lemma landing_deaf:
  assumes "\<not> landing_listening p"
  shows "landing (step rc p (MouseMove e)) = landing p"
    and "landing (step rc p (Wheel w)) = landing p"
proof -
  from assms have "Landing_onMouseMove \<notin> set (map snd (filter (\<lambda>tl. fst tl = ''mousemove'') (window_listeners p)))"
    by (force simp add: landing_listening_def)
  from landing_fold_MouseMove [OF this] show "landing (step rc p (MouseMove e)) = landing p"
    by (simp add: dispatch_def)
  from assms have "Landing_onWheel \<notin> set (map snd (filter (\<lambda>tl. fst tl = ''wheel'') (window_listeners p)))"
    by (force simp add: landing_listening_def)
  from landing_fold_Wheel [OF this] show "landing (step rc p (Wheel w)) = landing p"
    by (simp add: dispatch_def)
qed

lemma icon_click_fold:
  "\<not> landing_listening p \<or> Landing_iconClick \<in> set hs \<Longrightarrow>
   \<not> landing_listening (fold (call_listener rc IconClick) hs p)"
proof (induction hs arbitrary: p)
  case Nil
  then show ?case by simp
next
  case (Cons h hs)
  show ?case
  proof (cases "h = Landing_iconClick")
    case True
    have "\<not> landing_listening (call_listener rc IconClick h p)"
      using True by (simp add: call_listener_def landing_listening_iconClick)
    then show ?thesis by (simp add: landing_listening_fold)
  next
    case False
    with Cons.prems have "\<not> landing_listening p \<or> Landing_iconClick \<in> set hs" by auto
    moreover have "call_listener rc IconClick h p = p"
      using False by (simp add: call_listener_def split: listener.splits)
    ultimately show ?thesis using Cons.IH [of p] by simp
  qed
qed

lemma intro_tweens_call_listener:
  "intro_tweens p \<le> intro_tweens (call_listener rc IconClick h p) \<and>
   (h = Landing_iconClick \<longrightarrow> intro_tweens p < intro_tweens (call_listener rc IconClick h p))"
  by (simp add: call_listener_def iconClick_def Let_def split: listener.splits)

lemma intro_tweens_fold:
  "intro_tweens p \<le> intro_tweens (fold (call_listener rc IconClick) hs p) \<and>
   (Landing_iconClick \<in> set hs \<longrightarrow> intro_tweens p < intro_tweens (fold (call_listener rc IconClick) hs p))"
proof (induction hs arbitrary: p)
  case Nil
  then show ?case by simp
next
  case (Cons h hs)
  from Cons.IH [of "call_listener rc IconClick h p"] intro_tweens_call_listener [of p rc h]
  show ?case by auto
qed

text \<open>
  Claim C10. When the icon exists and carries the landing screen's click listener, a
  click on it leaves neither \<^verbatim>\<open>onMouseMove\<close> nor \<^verbatim>\<open>onWheel\<close> of the landing screen
  registered on the window, with the tween of the overlay started and its
  \<^verbatim>\<open>onComplete\<close> still to come. After the click, whatever events follow, a pointer move
  or a wheel event leaves the landing screen's state unchanged, in particular
  \<^verbatim>\<open>mouseX\<close>, \<^verbatim>\<open>mouseY\<close>, \<^verbatim>\<open>targetX\<close>, \<^verbatim>\<open>targetY\<close> and the camera's \<open>z\<close>.
\<close>

theorem icon_click_detaches_landing:
  assumes "icon_container p = Some iconContainer"
    and "(''click'', Landing_iconClick) \<in> set (icon_container_listeners p)"
  shows "(''mousemove'', Landing_onMouseMove) \<notin> set (window_listeners (step rc p IconClick)) \<and>
         (''wheel'', Landing_onWheel) \<notin> set (window_listeners (step rc p IconClick)) \<and>
         intro_tweens p < intro_tweens (step rc p IconClick) \<and>
         landing (step rc (run rc (step rc p IconClick) es) (MouseMove e)) = landing (run rc (step rc p IconClick) es) \<and>
         landing (step rc (run rc (step rc p IconClick) es) (Wheel w)) = landing (run rc (step rc p IconClick) es)"
proof -
  let ?hs = "map snd (filter (\<lambda>tl. fst tl = ''click'') (icon_container_listeners p))"
  from assms(2) have mem: "Landing_iconClick \<in> set ?hs" by force
  have eq: "step rc p IconClick = fold (call_listener rc IconClick) ?hs p"
    using assms(1) by (simp add: dispatch_def)
  from icon_click_fold [of p ?hs rc] mem
  have "\<not> landing_listening (fold (call_listener rc IconClick) ?hs p)" by blast
  then have deaf: "\<not> landing_listening (step rc p IconClick)"
    unfolding eq .
  from intro_tweens_fold [of p rc ?hs] mem
  have "intro_tweens p < intro_tweens (fold (call_listener rc IconClick) ?hs p)" by blast
  then have "intro_tweens p < intro_tweens (step rc p IconClick)"
    unfolding eq .
  moreover from landing_listening_run [OF deaf]
  have "\<not> landing_listening (run rc (step rc p IconClick) es)" .
  note landing_deaf [OF this]
  ultimately show ?thesis using deaf by (simp add: landing_listening_def)
qed

theorem icon_click_detaches_landing_witness:
  "icon_container example_loaded = Some \<lparr>textContent = [], classList = []\<rparr> \<and>
   (''click'', Landing_iconClick) \<in> set (icon_container_listeners example_loaded) \<and>
   map_option (\<lambda>l. vec_z (landing_camera l)) (landing example_loaded) = Some 1000 \<and>
   map_option (\<lambda>l. vec_z (landing_camera l)) (landing (step example_raycaster example_loaded (Wheel \<lparr>deltaY = 100\<rparr>)))
     = Some 1050 \<and>
   (''mousemove'', Landing_onMouseMove) \<notin> set (window_listeners (step example_raycaster example_loaded IconClick)) \<and>
   (''wheel'', Landing_onWheel) \<notin> set (window_listeners (step example_raycaster example_loaded IconClick)) \<and>
   intro_tweens example_loaded < intro_tweens (step example_raycaster example_loaded IconClick) \<and>
   landing (step example_raycaster
              (run example_raycaster (step example_raycaster example_loaded IconClick) [IntroComplete, AnimationFrame])
              (MouseMove \<lparr>clientX = 10, clientY = 20\<rparr>))
     = landing (run example_raycaster (step example_raycaster example_loaded IconClick) [IntroComplete, AnimationFrame]) \<and>
   landing (step example_raycaster
              (run example_raycaster (step example_raycaster example_loaded IconClick) [IntroComplete, AnimationFrame])
              (Wheel \<lparr>deltaY = 100\<rparr>))
     = landing (run example_raycaster (step example_raycaster example_loaded IconClick) [IntroComplete, AnimationFrame])"
proof -
  have h1: "icon_container example_loaded = Some \<lparr>textContent = [], classList = []\<rparr>"
    by (rule example_loaded_fields)
  have h2: "(''click'', Landing_iconClick) \<in> set (icon_container_listeners example_loaded)"
    by (simp add: example_loaded_fields)
  have before: "map_option (\<lambda>l. vec_z (landing_camera l)) (landing example_loaded) = Some 1000"
    by (simp add: example_loaded_def DOMContentLoaded_def example_page_def Let_def split_beta
        landing_animate_def vec_set_def)
  have wheel: "map_option (\<lambda>l. vec_z (landing_camera l))
                 (landing (step example_raycaster example_loaded (Wheel \<lparr>deltaY = 100\<rparr>))) = Some 1050"
    by (simp add: example_loaded_def DOMContentLoaded_def example_page_def Let_def split_beta
        landing_animate_def vec_set_def dispatch_def addEventListener_def call_listener_def
        landing_onWheel_def landing_minZoom_def landing_maxZoom_def)
  from h1 h2 before wheel
    icon_click_detaches_landing [OF h1 h2, where rc = example_raycaster
      and es = "[IntroComplete, AnimationFrame]" and e = "\<lparr>clientX = 10, clientY = 20\<rparr>"
      and w = "\<lparr>deltaY = 100\<rparr>"]
  show ?thesis by blast
qed

section \<open>Picking a planet\<close>

lemma configured_solar_animate: "configured s \<Longrightarrow> configured (solar_animate s)"
  by (simp add: configured_def planets_solar_animate animate_planet_userData comp_def)

lemma configured_run:
  assumes "solars p = []"
  shows "list_all configured (solars (run rc p es))"
proof (rule run_solars_inv)
  show "list_all configured (solars p)" using assms by simp
  show "configured (solar_onWheel e s)" if "configured s" for e s
    using that by (simp add: configured_def solar_onWheel_frame)
  show "configured (solar_onMouseMove w h e s)" if "configured s" for w h e s
    using that by (simp add: configured_def solar_onMouseMove_frame)
  show "configured (solar_animate s)" if "configured s" for s
    using that by (rule configured_solar_animate)
  show fresh: "configured (fst (solar_setup rnd k))" for rnd k
    by (simp add: configured_def solar_setup_config)
  show "configured (solar_animate (fst (solar_setup rnd k)))" for rnd k
    by (rule configured_solar_animate [OF fresh])
qed

lemma configured_member:
  assumes "configured s" and "m \<in> set (planets s)"
  shows "\<exists>d \<in> set planetsData. name (userData m) = data_name d \<and> content (userData m) = data_content d"
proof -
  from assms(2) have
    "(name (userData m), content (userData m), orbitalRadius (userData m), speed (userData m))
       \<in> set (map (\<lambda>m. (name (userData m), content (userData m), orbitalRadius (userData m), speed (userData m)))
                   (planets s))"
    by force
  with assms(1) have
    "(name (userData m), content (userData m), orbitalRadius (userData m), speed (userData m))
       \<in> set (map (\<lambda>d. (data_name d, data_content d, data_orbitalRadius d, data_speed d)) planetsData)"
    by (simp only: configured_def)
  then show ?thesis by auto
qed

lemma onCanvasClick_miss:
  "rc (((clientX event - rect_left domElement) / rect_width domElement) * 2 - 1,
       - ((clientY event - rect_top domElement) / rect_height domElement) * 2 + 1)
      (solar_camera s) (planets s) = [] \<Longrightarrow>
   onCanvasClick rc event domElement s p = (Returned, p)"
  by (simp add: onCanvasClick_def Let_def)

lemma onCanvasClick_hit:
  assumes "rc (((clientX event - rect_left domElement) / rect_width domElement) * 2 - 1,
       - ((clientY event - rect_top domElement) / rect_height domElement) * 2 + 1)
      (solar_camera s) (planets s) = first # others"
    and "planet_title p = Some titleEl" and "planet_content p = Some contentEl"
    and "info_panel p = Some infoPanel"
  shows "onCanvasClick rc event domElement s p =
     (Returned,
      p\<lparr>planet_title := Some (titleEl\<lparr>textContent := name (userData (object first))\<rparr>),
        planet_content := Some (contentEl\<lparr>textContent := content (userData (object first))\<rparr>),
        info_panel := Some (infoPanel\<lparr>classList :=
                        classList_add ''show'' (classList_remove ''hidden'' (classList infoPanel))\<rparr>)\<rparr>)"
  using assms by (simp add: onCanvasClick_def Let_def)

lemma canvas_click_miss_fold:
  assumes "solar_scene_el p = Some domElement"
    and "\<forall>j<length (solars p).
           rc (((clientX event - rect_left domElement) / rect_width domElement) * 2 - 1,
               - ((clientY event - rect_top domElement) / rect_height domElement) * 2 + 1)
              (solar_camera (solars p ! j)) (planets (solars p ! j)) = []"
  shows "fold (call_listener rc (CanvasClick event)) hs p = p"
proof (induction hs)
  case Nil
  then show ?case by simp
next
  case (Cons h hs)
  have "call_listener rc (CanvasClick event) h p = p"
    using assms by (simp add: call_listener_def onCanvasClick_miss split: listener.splits)
  with Cons.IH show ?case by simp
qed

text \<open>
  Claim C7. Take a page reached by any events from one without a solar system, with the
  title, content and panel elements present, and a click on the canvas. The ray caster
  is given the array \<^verbatim>\<open>planets\<close> and nothing else, and that array holds one mesh per
  entry of \<^verbatim>\<open>planetsData\<close> (neither the sun nor a ring); the handler's result depends on
  the ray caster through that one call only. The ray caster returns its hits sorted by
  distance, each a mesh of the array it was given. If there is a hit, the first one is
  the nearest, and the handler writes the name and the content that \<^verbatim>\<open>planetsData\<close>
  configures for that planet to the title and content elements and shows the panel. If
  there is no hit the handler returns with the page unchanged, and a click that hits
  no planet of any closure leaves the whole page unchanged.
\<close>

theorem click_selects_nearest_planet:
  assumes "solars p0 = []" and "p = run rc p0 es"
    and "solar_scene_el p = Some domElement"
    and "i < length (solars p)"
    and "planet_title p = Some titleEl"
    and "planet_content p = Some contentEl"
    and "info_panel p = Some infoPanel"
    and "mouse = (((clientX event - rect_left domElement) / rect_width domElement) * 2 - 1,
                  - ((clientY event - rect_top domElement) / rect_height domElement) * 2 + 1)"
    and "intersects = rc mouse (solar_camera (solars p ! i)) (planets (solars p ! i))"
    and "sorted_wrt (\<lambda>a b. distance a \<le> distance b) intersects"
    and "\<forall>h \<in> set intersects. object h \<in> set (planets (solars p ! i))"
  shows "(intersects \<noteq> [] \<longrightarrow>
            (\<forall>h \<in> set intersects. distance (hd intersects) \<le> distance h) \<and>
            (\<exists>d \<in> set planetsData.
               name (userData (object (hd intersects))) = data_name d \<and>
               content (userData (object (hd intersects))) = data_content d \<and>
               onCanvasClick rc event domElement (solars p ! i) p =
                 (Returned,
                  p\<lparr>planet_title := Some (titleEl\<lparr>textContent := data_name d\<rparr>),
                    planet_content := Some (contentEl\<lparr>textContent := data_content d\<rparr>),
                    info_panel := Some (infoPanel\<lparr>classList :=
                       classList_add ''show'' (classList_remove ''hidden'' (classList infoPanel))\<rparr>)\<rparr>))) \<and>
         (intersects = [] \<longrightarrow> onCanvasClick rc event domElement (solars p ! i) p = (Returned, p)) \<and>
         ((\<forall>j<length (solars p). rc mouse (solar_camera (solars p ! j)) (planets (solars p ! j)) = []) \<longrightarrow>
            step rc p (CanvasClick event) = p) \<and>
         map (\<lambda>m. (name (userData m), content (userData m))) (planets (solars p ! i))
           = map (\<lambda>d. (data_name d, data_content d)) planetsData \<and>
         (\<forall>rc'. rc' mouse (solar_camera (solars p ! i)) (planets (solars p ! i)) = intersects \<longrightarrow>
            onCanvasClick rc' event domElement (solars p ! i) p
              = onCanvasClick rc event domElement (solars p ! i) p)"
proof -
  let ?s = "solars p ! i"
  from configured_run [OF assms(1), of rc es] assms(2,4) have conf: "configured ?s"
    by (simp add: list_all_length)
  have hit: "(\<forall>h \<in> set intersects. distance (hd intersects) \<le> distance h) \<and>
            (\<exists>d \<in> set planetsData.
               name (userData (object (hd intersects))) = data_name d \<and>
               content (userData (object (hd intersects))) = data_content d \<and>
               onCanvasClick rc event domElement ?s p =
                 (Returned,
                  p\<lparr>planet_title := Some (titleEl\<lparr>textContent := data_name d\<rparr>),
                    planet_content := Some (contentEl\<lparr>textContent := data_content d\<rparr>),
                    info_panel := Some (infoPanel\<lparr>classList :=
                       classList_add ''show'' (classList_remove ''hidden'' (classList infoPanel))\<rparr>)\<rparr>))"
    if "intersects \<noteq> []"
  proof -
    from that obtain first others where split: "intersects = first # others"
      by (cases intersects) auto
    from assms(10) split have near: "\<forall>h \<in> set intersects. distance (hd intersects) \<le> distance h"
      by auto
    from assms(11) split have "object first \<in> set (planets ?s)" by simp
    from configured_member [OF conf this] obtain d where d: "d \<in> set planetsData"
      "name (userData (object first)) = data_name d" "content (userData (object first)) = data_content d"
      by blast
    from split assms(8,9) have
      "rc (((clientX event - rect_left domElement) / rect_width domElement) * 2 - 1,
           - ((clientY event - rect_top domElement) / rect_height domElement) * 2 + 1)
          (solar_camera ?s) (planets ?s) = first # others"
      by simp
    from onCanvasClick_hit [where rc = rc and event = event and domElement = domElement and s = ?s and p = p,
        OF this assms(5,6,7)] d split near show ?thesis
      by auto
  qed
  have miss: "onCanvasClick rc event domElement ?s p = (Returned, p)" if "intersects = []"
    using that assms(8,9) by (intro onCanvasClick_miss) simp
  have page_miss: "step rc p (CanvasClick event) = p"
    if "\<forall>j<length (solars p). rc mouse (solar_camera (solars p ! j)) (planets (solars p ! j)) = []"
    using canvas_click_miss_fold [OF assms(3), of rc event] that assms(3,8)
    by (simp add: dispatch_def)
  have names: "map (\<lambda>m. (name (userData m), content (userData m))) (planets ?s)
           = map (\<lambda>d. (data_name d, data_content d)) planetsData"
  proof -
    have "map (\<lambda>m. (name (userData m), content (userData m))) (planets ?s)
          = map (\<lambda>t. (fst t, fst (snd t)))
              (map (\<lambda>m. (name (userData m), content (userData m), orbitalRadius (userData m), speed (userData m)))
                 (planets ?s))"
      by (simp add: comp_def)
    also have "\<dots> = map (\<lambda>t. (fst t, fst (snd t)))
              (map (\<lambda>d. (data_name d, data_content d, data_orbitalRadius d, data_speed d)) planetsData)"
      using conf by (simp only: configured_def)
    also have "\<dots> = map (\<lambda>d. (data_name d, data_content d)) planetsData"
      by (simp add: comp_def)
    finally show ?thesis .
  qed
  have only: "onCanvasClick rc' event domElement ?s p = onCanvasClick rc event domElement ?s p"
    if "rc' mouse (solar_camera ?s) (planets ?s) = intersects" for rc'
    using that assms(8,9) by (simp add: onCanvasClick_def Let_def)
  from hit miss page_miss names only show ?thesis by blast
qed

lemma example_active_config:
  "map (\<lambda>m. orbitalRadius (userData m)) (planets (hd (solars example_active))) = [150, 220, 270, 330, 400]"
  "map (\<lambda>m. name (userData m)) (planets (hd (solars example_active)))
     = [''Earth'', ''Mars'', ''Venus'', ''Jupiter'', ''Saturn'']"
proof -
  have "list_all configured (solars example_active)"
    unfolding example_active_def by (rule configured_run) (rule example_loaded_fields)
  then have "configured (hd (solars example_active))"
    by (simp add: example_active_fields)
  then have c: "map (\<lambda>m. (name (userData m), content (userData m), orbitalRadius (userData m), speed (userData m)))
                  (planets (hd (solars example_active)))
             = map (\<lambda>d. (data_name d, data_content d, data_orbitalRadius d, data_speed d)) planetsData"
    by (simp only: configured_def)
  from arg_cong [OF c, of "map (\<lambda>t. fst (snd (snd t)))"]
  show "map (\<lambda>m. orbitalRadius (userData m)) (planets (hd (solars example_active))) = [150, 220, 270, 330, 400]"
    by (simp add: comp_def planetsData_def)
  from arg_cong [OF c, of "map fst"]
  show "map (\<lambda>m. name (userData m)) (planets (hd (solars example_active)))
     = [''Earth'', ''Mars'', ''Venus'', ''Jupiter'', ''Saturn'']"
    by (simp add: comp_def planetsData_def)
qed

theorem click_selects_nearest_planet_witness:
  "solars example_loaded = [] \<and>
   solar_scene_el example_active =
     Some \<lparr>dataset_initialised = Some ''true'', rect_left = 0, rect_top = 0,
           rect_width = 1280, rect_height = 720,
           canvas_listeners = [(''click'', Solar_onCanvasClick 0)]\<rparr> \<and>
   length (example_raycaster (((100 - 0) / 1280) * 2 - 1, - ((100 - 0) / 720) * 2 + 1)
             (solar_camera (solars example_active ! 0)) (planets (solars example_active ! 0))) = 5 \<and>
   (\<exists>d \<in> set planetsData.
      onCanvasClick example_raycaster \<lparr>clientX = 100, clientY = 100\<rparr>
        \<lparr>dataset_initialised = Some ''true'', rect_left = 0, rect_top = 0,
         rect_width = 1280, rect_height = 720,
         canvas_listeners = [(''click'', Solar_onCanvasClick 0)]\<rparr>
        (solars example_active ! 0) example_active =
      (Returned,
       example_active
         \<lparr>planet_title := Some \<lparr>textContent = data_name d, classList = []\<rparr>,
          planet_content := Some \<lparr>textContent = data_content d, classList = []\<rparr>,
          info_panel := Some \<lparr>textContent = [], classList = [''show'']\<rparr>\<rparr>)) \<and>
   map_option textContent
     (planet_title (step example_raycaster example_active (CanvasClick \<lparr>clientX = 100, clientY = 100\<rparr>)))
     = Some ''Earth'' \<and>
   step example_raycaster example_active (CanvasClick \<lparr>clientX = 1000, clientY = 100\<rparr>) = example_active"
proof -
  let ?dom = "\<lparr>dataset_initialised = Some ''true'', rect_left = 0, rect_top = 0,
           rect_width = 1280, rect_height = 720,
           canvas_listeners = [(''click'', Solar_onCanvasClick 0)]\<rparr>"
  let ?ev = "\<lparr>clientX = 100, clientY = 100\<rparr>"
  let ?ev2 = "\<lparr>clientX = 1000, clientY = 100\<rparr>"
  let ?mouse = "(((clientX ?ev - rect_left ?dom) / rect_width ?dom) * 2 - 1,
                 - ((clientY ?ev - rect_top ?dom) / rect_height ?dom) * 2 + 1)"
  let ?mouse2 = "(((clientX ?ev2 - rect_left ?dom) / rect_width ?dom) * 2 - 1,
                 - ((clientY ?ev2 - rect_top ?dom) / rect_height ?dom) * 2 + 1)"
  let ?s = "solars example_active ! 0"
  let ?r = "\<lambda>m. orbitalRadius (userData m)"
  let ?hits = "example_raycaster ?mouse (solar_camera ?s) (planets ?s)"
  let ?hits2 = "example_raycaster ?mouse2 (solar_camera ?s) (planets ?s)"
  have hd: "?s = hd (solars example_active)" by (simp add: example_active_fields)
  have h1: "solars example_loaded = []" by (rule example_loaded_fields)
  have h2: "example_active = run example_raycaster example_loaded [IconClick, IntroComplete]"
    by (rule example_active_def)
  have h3: "solar_scene_el example_active = Some ?dom" by (rule example_active_fields)
  have h4: "0 < length (solars example_active)" by (simp add: example_active_fields)
  have h5: "planet_title example_active = Some \<lparr>textContent = [], classList = []\<rparr>"
    by (rule example_active_fields)
  have h6: "planet_content example_active = Some \<lparr>textContent = [], classList = []\<rparr>"
    by (rule example_active_fields)
  have h7: "info_panel example_active = Some \<lparr>textContent = [], classList = [''hidden'']\<rparr>"
    by (rule example_active_fields)
  have hits: "?hits = map (\<lambda>m. \<lparr>distance = ?r m, object = m\<rparr>) (planets ?s)"
    by (simp add: example_raycaster_def)
  have hits2: "?hits2 = []"
    by (simp add: example_raycaster_def)
  have radii: "map ?r (planets ?s) = [150, 220, 270, 330, 400]"
    unfolding hd by (rule example_active_config)
  have names: "map (\<lambda>m. name (userData m)) (planets ?s) = [''Earth'', ''Mars'', ''Venus'', ''Jupiter'', ''Saturn'']"
    unfolding hd by (rule example_active_config)
  have "sorted_wrt (\<le>) (map ?r (planets ?s))" by (simp only: radii) simp
  then have "sorted_wrt (\<lambda>x y. ?r x \<le> ?r y) (planets ?s)" by (simp only: sorted_wrt_map)
  then have h10: "sorted_wrt (\<lambda>a b. distance a \<le> distance b) ?hits"
    unfolding hits by (simp add: sorted_wrt_map)
  have h11: "\<forall>h \<in> set ?hits. object h \<in> set (planets ?s)"
    unfolding hits by auto
  have "length ?hits = length (map ?r (planets ?s))"
    unfolding hits by simp
  then have len: "length ?hits = 5" by (simp only: radii) simp
  then have ne: "?hits \<noteq> []" by auto
  note inst = click_selects_nearest_planet [where event = ?ev and rc = example_raycaster and i = 0 and domElement = ?dom,
      OF h1 h2 h3 h4 h5 h6 h7 refl refl h10 h11]
  from inst ne have "\<exists>d \<in> set planetsData.
               name (userData (object (hd ?hits))) = data_name d \<and>
               content (userData (object (hd ?hits))) = data_content d \<and>
               onCanvasClick example_raycaster ?ev ?dom ?s example_active =
                 (Returned,
                  example_active\<lparr>planet_title := Some (\<lparr>textContent = [], classList = []\<rparr>\<lparr>textContent := data_name d\<rparr>),
                    planet_content := Some (\<lparr>textContent = [], classList = []\<rparr>\<lparr>textContent := data_content d\<rparr>),
                    info_panel := Some (\<lparr>textContent = [], classList = [''hidden'']\<rparr>\<lparr>classList :=
                       classList_add ''show'' (classList_remove ''hidden'' (classList \<lparr>textContent = [], classList = [''hidden'']\<rparr>))\<rparr>)\<rparr>)"
    by blast
  then obtain d where d: "d \<in> set planetsData"
     "onCanvasClick example_raycaster ?ev ?dom ?s example_active =
                 (Returned,
                  example_active\<lparr>planet_title := Some (\<lparr>textContent = [], classList = []\<rparr>\<lparr>textContent := data_name d\<rparr>),
                    planet_content := Some (\<lparr>textContent = [], classList = []\<rparr>\<lparr>textContent := data_content d\<rparr>),
                    info_panel := Some (\<lparr>textContent = [], classList = [''hidden'']\<rparr>\<lparr>classList :=
                       classList_add ''show'' (classList_remove ''hidden'' (classList \<lparr>textContent = [], classList = [''hidden'']\<rparr>))\<rparr>)\<rparr>)"
    by blast
  have cl: "classList_add ''show'' (classList_remove ''hidden'' [''hidden'']) = [''show'']"
    by (simp add: classList_add_def classList_remove_def)
  from d(2) have "onCanvasClick example_raycaster ?ev ?dom ?s example_active =
      (Returned,
       example_active
         \<lparr>planet_title := Some \<lparr>textContent = data_name d, classList = []\<rparr>,
          planet_content := Some \<lparr>textContent = data_content d, classList = []\<rparr>,
          info_panel := Some \<lparr>textContent = [], classList = [''show'']\<rparr>\<rparr>)"
    by (simp add: cl)
  with d(1) have sel: "\<exists>d \<in> set planetsData.
      onCanvasClick example_raycaster ?ev ?dom ?s example_active =
      (Returned,
       example_active
         \<lparr>planet_title := Some \<lparr>textContent = data_name d, classList = []\<rparr>,
          planet_content := Some \<lparr>textContent = data_content d, classList = []\<rparr>,
          info_panel := Some \<lparr>textContent = [], classList = [''show'']\<rparr>\<rparr>)"
    by blast
  have h10': "sorted_wrt (\<lambda>a b. distance a \<le> distance b) ?hits2" by (simp only: hits2) simp
  have h11': "\<forall>h \<in> set ?hits2. object h \<in> set (planets ?s)" by (simp only: hits2) simp
  have all_miss: "\<forall>j<length (solars example_active).
      example_raycaster ?mouse2 (solar_camera (solars example_active ! j)) (planets (solars example_active ! j)) = []"
    by (simp add: example_raycaster_def)
  from click_selects_nearest_planet [where event = ?ev2 and rc = example_raycaster and i = 0 and domElement = ?dom,
      OF h1 h2 h3 h4 h5 h6 h7 refl refl h10' h11'] all_miss
  have miss: "step example_raycaster example_active (CanvasClick ?ev2) = example_active"
    by blast
  from names obtain m0 rest where ps: "planets ?s = m0 # rest" and m0: "name (userData m0) = ''Earth''"
    by (cases "planets ?s") auto
  have st: "step example_raycaster example_active (CanvasClick ?ev)
        = snd (onCanvasClick example_raycaster ?ev ?dom ?s example_active)"
    using h4 by (simp add: h3 dispatch_def call_listener_def)
  have "?hits = \<lparr>distance = ?r m0, object = m0\<rparr> # map (\<lambda>m. \<lparr>distance = ?r m, object = m\<rparr>) rest"
    by (simp add: example_raycaster_def ps)
  note onCanvasClick_hit [where rc = example_raycaster and event = ?ev and domElement = ?dom and s = ?s
      and p = example_active, OF this h5 h6 h7]
  then have "planet_title (snd (onCanvasClick example_raycaster ?ev ?dom ?s example_active))
             = Some \<lparr>textContent = ''Earth'', classList = []\<rparr>"
    by (simp add: m0)
  then have earth: "map_option textContent
     (planet_title (step example_raycaster example_active (CanvasClick ?ev))) = Some ''Earth''"
    unfolding st by simp
  have len': "length (example_raycaster (((100 - 0) / 1280) * 2 - 1, - ((100 - 0) / 720) * 2 + 1)
             (solar_camera ?s) (planets ?s)) = 5"
    using len by simp
  show ?thesis
    by (intro conjI) (rule h1 h3 len' sel earth miss)+
qed

end
